theory Spec2Isabelle
  imports Complex_Main
begin

section \<open>Platform model: values, JSON, the key-value provider\<close>

text \<open>
  The storage module (\<^verbatim>\<open>utils/health-storage\<close>) is TypeScript over three platform
  services: JavaScript values and \<^verbatim>\<open>JSON\<close>, the \<^verbatim>\<open>AsyncStorage\<close> key-value provider and
  \<^verbatim>\<open>Date\<close>. TypeScript types are erased at run time, so what the module reads back from the
  provider is an arbitrary JavaScript value; the model keeps that.

  A \<^verbatim>\<open>number\<close> is an IEEE double: \<open>Finite q\<close> is the finite double whose value is the
  rational \<open>q\<close>, next to \<^verbatim>\<open>NaN\<close> and the two infinities. The sign of zero is not
  modelled. Arithmetic rounds its results to doubles (see \<open>fl\<close> below).
\<close>

datatype number = Finite rat | NaN | PosInfinity | NegInfinity

datatype jsval =
    Undefined
  | Null
  | Bool bool
  | Num number
  | Str string
  | Arr "jsval list"
  | Obj "(string \<times> jsval) list"

text \<open>The values a JSON text can denote: no \<^verbatim>\<open>undefined\<close>, only finite numbers.\<close>

datatype json =
    JNull
  | JBool bool
  | JNum rat
  | JStr string
  | JArr "json list"
  | JObj "(string \<times> json) list"

text \<open>
  \<^verbatim>\<open>JSON.stringify\<close>, per value (ECMA-262, SerializeJSONProperty): a non-finite number
  becomes \<^verbatim>\<open>null\<close>, an \<^verbatim>\<open>undefined\<close> array element becomes \<^verbatim>\<open>null\<close>, a property
  whose value is \<^verbatim>\<open>undefined\<close> is left out.
\<close>

fun SerializeJSONProperty :: "jsval \<Rightarrow> json" where
  "SerializeJSONProperty Undefined = JNull"
| "SerializeJSONProperty Null = JNull"
| "SerializeJSONProperty (Bool b) = JBool b"
| "SerializeJSONProperty (Num (Finite q)) = JNum q"
| "SerializeJSONProperty (Num _) = JNull"
| "SerializeJSONProperty (Str s) = JStr s"
| "SerializeJSONProperty (Arr vs) = JArr (map SerializeJSONProperty vs)"
| "SerializeJSONProperty (Obj ps) =
     JObj (map (\<lambda>(k, v). (k, SerializeJSONProperty v))
            (filter (\<lambda>(k, v). v \<noteq> Undefined) ps))"

text \<open>The value \<^verbatim>\<open>JSON.parse\<close> builds from what a text denotes.\<close>

fun InternalizeJSONProperty :: "json \<Rightarrow> jsval" where
  "InternalizeJSONProperty JNull = Null"
| "InternalizeJSONProperty (JBool b) = Bool b"
| "InternalizeJSONProperty (JNum q) = Num (Finite q)"
| "InternalizeJSONProperty (JStr s) = Str s"
| "InternalizeJSONProperty (JArr js) = Arr (map InternalizeJSONProperty js)"
| "InternalizeJSONProperty (JObj ps) =
     Obj (map (\<lambda>(k, j). (k, InternalizeJSONProperty j)) ps)"

text \<open>
  A stored string, up to what the module can observe of it: whether it is empty (the only
  falsy string), whether \<^verbatim>\<open>JSON.parse\<close> rejects it, and otherwise the value it denotes.
  The character level of JSON texts belongs to the JavaScript engine and is not modelled.
\<close>

datatype blob = EmptyString | Unparsable | Json json

datatype exn = SyntaxError | TypeError | ProviderError

type_synonym 'a result = "exn + 'a"

fun JSON_parse :: "blob \<Rightarrow> jsval result" where
  "JSON_parse EmptyString = Inl SyntaxError"
| "JSON_parse Unparsable = Inl SyntaxError"
| "JSON_parse (Json j) = Inr (InternalizeJSONProperty j)"

text \<open>\<^verbatim>\<open>JSON.stringify\<close> of an array (the module calls it on nothing else).\<close>

definition JSON_stringify :: "jsval list \<Rightarrow> blob" where
  "JSON_stringify vs = Json (SerializeJSONProperty (Arr vs))"

text \<open>
  The provider. \<open>items\<close> is what the device holds; \<open>trace\<close> lists the calls made so far;
  the \<open>n\<close>-th call is rejected when \<open>faults n\<close>. A rejected call leaves \<open>items\<close> as it was.
  \<open>console\<close> collects what \<^verbatim>\<open>console.error\<close> printed.
\<close>

datatype call = GetItem string | SetItem string blob | MultiRemove "string list"

record device =
  items :: "string \<Rightarrow> blob option"
  trace :: "call list"
  faults :: "nat \<Rightarrow> bool"
  console :: "string list"

definition rejected :: "device \<Rightarrow> bool" where
  "rejected st = faults st (length (trace st))"

definition AsyncStorage_getItem :: "string \<Rightarrow> device \<Rightarrow> blob option result \<times> device" where
  "AsyncStorage_getItem k st =
     (let st' = st\<lparr>trace := trace st @ [GetItem k]\<rparr>
      in if rejected st then (Inl ProviderError, st') else (Inr (items st k), st'))"

definition AsyncStorage_setItem :: "string \<Rightarrow> blob \<Rightarrow> device \<Rightarrow> unit result \<times> device" where
  "AsyncStorage_setItem k v st =
     (let st' = st\<lparr>trace := trace st @ [SetItem k v]\<rparr>
      in if rejected st then (Inl ProviderError, st')
         else (Inr (), st'\<lparr>items := (items st)(k \<mapsto> v)\<rparr>))"

definition AsyncStorage_multiRemove :: "string list \<Rightarrow> device \<Rightarrow> unit result \<times> device" where
  "AsyncStorage_multiRemove ks st =
     (let st' = st\<lparr>trace := trace st @ [MultiRemove ks]\<rparr>
      in if rejected st then (Inl ProviderError, st')
         else (Inr (), st'\<lparr>items := (\<lambda>k. if k \<in> set ks then None else items st k)\<rparr>))"

definition console_error :: "string \<Rightarrow> device \<Rightarrow> device" where
  "console_error msg st = st\<lparr>console := console st @ [msg]\<rparr>"

text \<open>\<^verbatim>\<open>xs.push(v)\<close>: only an array has the method; anything else raises a TypeError.\<close>

fun Array_push :: "jsval \<Rightarrow> jsval \<Rightarrow> jsval list result" where
  "Array_push (Arr vs) v = Inr (vs @ [v])"
| "Array_push _ v = Inl TypeError"

section \<open>Platform model: arithmetic and strings\<close>

text \<open>
  Rounding to a double (IEEE 754 binary64, round to nearest, ties to even). \<open>floorLog2 a\<close>
  is the exponent \<open>e\<close> with \<open>2^e \<le> a < 2^(e+1)\<close>; doubles in this binade are the multiples
  of \<open>2^(e-52)\<close>, below \<open>2^-1022\<close> those of \<open>2^-1074\<close>; a result of \<open>2^1024\<close> or more is an
  infinity.
\<close>

function ilog2 :: "int \<Rightarrow> int" where
  "ilog2 n = (if n < 2 then 0 else 1 + ilog2 (n div 2))"
  by pat_completeness auto
termination
  by (relation "measure nat") auto

declare ilog2.simps [simp del]

text \<open>\<open>ilog2 n\<close> is the position of the leading bit of \<open>n\<close>; \<open>pow2 e\<close> is \<open>2^e\<close>.\<close>

definition pow2 :: "int \<Rightarrow> rat" where
  "pow2 e = (if 0 \<le> e then 2 ^ nat e else 1 / 2 ^ nat (- e))"

definition floorLog2 :: "rat \<Rightarrow> int" where
  "floorLog2 a =
     (if 1 \<le> a then ilog2 \<lfloor>a\<rfloor>
      else (let k = - ilog2 \<lfloor>1 / a\<rfloor> - 1
            in if pow2 (k + 1) \<le> a then k + 1 else k))"

definition roundHalfEven :: "rat \<Rightarrow> int" where
  "roundHalfEven x =
     (let f = \<lfloor>x\<rfloor>; r = x - of_int f
      in if r < 1 / 2 then f else if 1 / 2 < r then f + 1
         else if even f then f else f + 1)"

definition fl :: "rat \<Rightarrow> number" where
  "fl q =
     (if q = 0 then Finite 0
      else (let a = \<bar>q\<bar>; e = max (floorLog2 a) (- 1022); u = pow2 (e - 52);
                r = of_int (roundHalfEven (a / u)) * u
            in if pow2 1024 \<le> r then (if 0 < q then PosInfinity else NegInfinity)
               else Finite (if 0 < q then r else - r)))"

text \<open>
  Addition, multiplication, comparison and rounding to an integer, with the non-finite
  cases of IEEE arithmetic; a finite sum or product is rounded to a double.
\<close>

fun js_add :: "number \<Rightarrow> number \<Rightarrow> number" where
  "js_add (Finite a) (Finite b) = fl (a + b)"
| "js_add NaN y = NaN"
| "js_add x NaN = NaN"
| "js_add PosInfinity NegInfinity = NaN"
| "js_add NegInfinity PosInfinity = NaN"
| "js_add PosInfinity y = PosInfinity"
| "js_add x PosInfinity = PosInfinity"
| "js_add NegInfinity y = NegInfinity"
| "js_add x NegInfinity = NegInfinity"

fun js_mul :: "number \<Rightarrow> number \<Rightarrow> number" where
  "js_mul (Finite a) (Finite b) = fl (a * b)"
| "js_mul NaN y = NaN"
| "js_mul x NaN = NaN"
| "js_mul (Finite a) PosInfinity = (if a = 0 then NaN else if 0 < a then PosInfinity else NegInfinity)"
| "js_mul (Finite a) NegInfinity = (if a = 0 then NaN else if 0 < a then NegInfinity else PosInfinity)"
| "js_mul PosInfinity (Finite b) = (if b = 0 then NaN else if 0 < b then PosInfinity else NegInfinity)"
| "js_mul NegInfinity (Finite b) = (if b = 0 then NaN else if 0 < b then NegInfinity else PosInfinity)"
| "js_mul PosInfinity PosInfinity = PosInfinity"
| "js_mul NegInfinity NegInfinity = PosInfinity"
| "js_mul PosInfinity NegInfinity = NegInfinity"
| "js_mul NegInfinity PosInfinity = NegInfinity"

text \<open>\<^verbatim>\<open>Math.round\<close>: the nearest integer, a half rounding up.\<close>

fun Math_round :: "number \<Rightarrow> number" where
  "Math_round (Finite q) = Finite (of_int \<lfloor>q + 1 / 2\<rfloor>)"
| "Math_round x = x"

fun isNaN :: "number \<Rightarrow> bool" where
  "isNaN NaN = True"
| "isNaN _ = False"

text \<open>\<^verbatim>\<open>a <= b\<close>; false when either side is \<^verbatim>\<open>NaN\<close>.\<close>

fun js_le :: "number \<Rightarrow> number \<Rightarrow> bool" where
  "js_le (Finite a) (Finite b) = (a \<le> b)"
| "js_le NaN y = False"
| "js_le x NaN = False"
| "js_le NegInfinity y = True"
| "js_le x PosInfinity = True"
| "js_le x y = False"

text \<open>
  A character is a code unit below 256: the white space that \<^verbatim>\<open>trim\<close> and \<^verbatim>\<open>parseInt\<close>
  skip is tab, line feed, vertical tab, form feed, carriage return, space and no-break
  space (the white space of ECMAScript beyond code 255 cannot occur in such a string).
\<close>

definition isWhiteSpace :: "char \<Rightarrow> bool" where
  "isWhiteSpace c = (of_char c \<in> {9, 10, 11, 12, 13, 32, 160 :: nat})"

definition trim :: "string \<Rightarrow> string" where
  "trim s = rev (dropWhile isWhiteSpace (rev (dropWhile isWhiteSpace s)))"

text \<open>The value of a digit in base 10 or 16, and of a run of digits in base \<open>R\<close>.\<close>

definition digitValue :: "char \<Rightarrow> nat option" where
  "digitValue c =
     (let n = of_char c :: nat
      in if 48 \<le> n \<and> n \<le> 57 then Some (n - 48)
         else if 97 \<le> n \<and> n \<le> 102 then Some (n - 87)
         else if 65 \<le> n \<and> n \<le> 70 then Some (n - 55)
         else None)"

definition isDigit :: "nat \<Rightarrow> char \<Rightarrow> bool" where
  "isDigit R c = (case digitValue c of None \<Rightarrow> False | Some d \<Rightarrow> d < R)"

definition digitsValue :: "nat \<Rightarrow> string \<Rightarrow> nat" where
  "digitsValue R Z = foldl (\<lambda>acc c. acc * R + the (digitValue c)) 0 Z"

text \<open>
  \<^verbatim>\<open>parseInt(s)\<close> with no radix: leading white space, a sign, a \<^verbatim>\<open>0x\<close> prefix for base
  16, then the longest run of digits; \<^verbatim>\<open>NaN\<close> when that run is empty, otherwise the
  double nearest to the integer the digits denote (beyond the 20th significant digit an
  implementation may read the digits as zeros; here they are read as they are).
\<close>

definition parseInt_digits :: "string \<Rightarrow> int option" where
  "parseInt_digits inputString =
     (let S = dropWhile isWhiteSpace inputString;
          sign = (if take 1 S = ''-'' then - 1 else 1 :: int);
          S1 = (if take 1 S = ''-'' \<or> take 1 S = ''+'' then drop 1 S else S);
          hex = (take 2 S1 = ''0x'' \<or> take 2 S1 = ''0X'');
          R = (if hex then 16 else 10);
          S2 = (if hex then drop 2 S1 else S1);
          Z = takeWhile (isDigit R) S2
      in if Z = [] then None else Some (sign * int (digitsValue R Z)))"

definition parseInt :: "string \<Rightarrow> number" where
  "parseInt inputString =
     (case parseInt_digits inputString of None \<Rightarrow> NaN | Some n \<Rightarrow> fl (of_int n))"

section \<open>The record store\<close>

definition DIET_KEY :: string where
  "DIET_KEY = ''@diet_entries''"

definition EXERCISE_KEY :: string where
  "EXERCISE_KEY = ''@exercise_entries''"

record FoodItem =
  food_name :: string
  calories :: number
  protein :: number
  carbs :: number
  fat :: number

record DietEntry =
  diet_id :: string
  diet_date :: string
  mealType :: string
  foods :: "FoodItem list"
  totalCalories :: number
  totalProtein :: number
  totalCarbs :: number
  totalFat :: number

record Exercise =
  exercise_name :: string
  sets :: "number option"
  reps :: "number option"
  weight :: "number option"
  exercise_duration :: "number option"
  distance :: "number option"

record ExerciseEntry =
  exercise_id :: string
  exercise_date :: string
  exercise_type :: string
  exercises :: "Exercise list"
  duration :: number
  caloriesBurned :: number

text \<open>The objects these records are at run time, properties in declaration order.\<close>

definition FoodItem_obj :: "FoodItem \<Rightarrow> jsval" where
  "FoodItem_obj f = Obj [(''name'', Str (food_name f)), (''calories'', Num (calories f)),
     (''protein'', Num (protein f)), (''carbs'', Num (carbs f)), (''fat'', Num (fat f))]"

definition DietEntry_obj :: "DietEntry \<Rightarrow> jsval" where
  "DietEntry_obj e = Obj [(''id'', Str (diet_id e)), (''date'', Str (diet_date e)),
     (''mealType'', Str (mealType e)), (''foods'', Arr (map FoodItem_obj (foods e))),
     (''totalCalories'', Num (totalCalories e)), (''totalProtein'', Num (totalProtein e)),
     (''totalCarbs'', Num (totalCarbs e)), (''totalFat'', Num (totalFat e))]"

text \<open>An optional property that is not set is \<^verbatim>\<open>undefined\<close>.\<close>

definition optional :: "number option \<Rightarrow> jsval" where
  "optional x = (case x of None \<Rightarrow> Undefined | Some n \<Rightarrow> Num n)"

definition Exercise_obj :: "Exercise \<Rightarrow> jsval" where
  "Exercise_obj x = Obj [(''name'', Str (exercise_name x)), (''sets'', optional (sets x)),
     (''reps'', optional (reps x)), (''weight'', optional (weight x)),
     (''duration'', optional (exercise_duration x)), (''distance'', optional (distance x))]"

definition ExerciseEntry_obj :: "ExerciseEntry \<Rightarrow> jsval" where
  "ExerciseEntry_obj e = Obj [(''id'', Str (exercise_id e)), (''date'', Str (exercise_date e)),
     (''type'', Str (exercise_type e)), (''exercises'', Arr (map Exercise_obj (exercises e))),
     (''duration'', Num (duration e)), (''caloriesBurned'', Num (caloriesBurned e))]"

text \<open>
  \<^verbatim>\<open>getDietEntries\<close>: \<^verbatim>\<open>data ? JSON.parse(data) : []\<close> inside \<^verbatim>\<open>try\<close>; the \<^verbatim>\<open>catch\<close>
  logs and returns \<^verbatim>\<open>[]\<close>. The result is whatever value the text denotes: the declared
  return type is not checked at run time. \<^verbatim>\<open>getExerciseEntries\<close> is the same function
  but for the key and the message logged, so both are instances of \<open>readEntries\<close>.
\<close>

definition readEntries :: "string \<Rightarrow> string \<Rightarrow> device \<Rightarrow> jsval result \<times> device" where
  "readEntries key msg st =
     (case AsyncStorage_getItem key st of
        (Inl err, st') \<Rightarrow> (Inr (Arr []), console_error msg st')
      | (Inr None, st') \<Rightarrow> (Inr (Arr []), st')
      | (Inr (Some EmptyString), st') \<Rightarrow> (Inr (Arr []), st')
      | (Inr (Some data), st') \<Rightarrow>
          (case JSON_parse data of
             Inl err \<Rightarrow> (Inr (Arr []), console_error msg st')
           | Inr v \<Rightarrow> (Inr v, st')))"

definition getDietEntries :: "device \<Rightarrow> jsval result \<times> device" where
  "getDietEntries = readEntries DIET_KEY ''Error getting diet entries:''"

definition getExerciseEntries :: "device \<Rightarrow> jsval result \<times> device" where
  "getExerciseEntries = readEntries EXERCISE_KEY ''Error getting exercise entries:''"

text \<open>
  \<^verbatim>\<open>addDietEntry\<close>: read, \<^verbatim>\<open>push\<close>, write everything back; the \<^verbatim>\<open>catch\<close> logs and
  rethrows whatever the \<^verbatim>\<open>try\<close> block raised. \<^verbatim>\<open>addExerciseEntry\<close> is the same with
  the other getter, key and message, so both are instances of \<open>appendEntry\<close>.
\<close>

definition appendEntry ::
  "(device \<Rightarrow> jsval result \<times> device) \<Rightarrow> string \<Rightarrow> string \<Rightarrow> jsval \<Rightarrow> device
     \<Rightarrow> unit result \<times> device" where
  "appendEntry getEntries key msg entry st =
     (case getEntries st of
        (Inl err, st1) \<Rightarrow> (Inl err, console_error msg st1)
      | (Inr entries, st1) \<Rightarrow>
          (case Array_push entries entry of
             Inl err \<Rightarrow> (Inl err, console_error msg st1)
           | Inr entries' \<Rightarrow>
               (case AsyncStorage_setItem key (JSON_stringify entries') st1 of
                  (Inl err, st2) \<Rightarrow> (Inl err, console_error msg st2)
                | (Inr u, st2) \<Rightarrow> (Inr (), st2))))"

definition addDietEntry :: "DietEntry \<Rightarrow> device \<Rightarrow> unit result \<times> device" where
  "addDietEntry entry =
     appendEntry getDietEntries DIET_KEY ''Error adding diet entry:'' (DietEntry_obj entry)"

definition addExerciseEntry :: "ExerciseEntry \<Rightarrow> device \<Rightarrow> unit result \<times> device" where
  "addExerciseEntry entry =
     appendEntry getExerciseEntries EXERCISE_KEY ''Error adding exercise entry:''
       (ExerciseEntry_obj entry)"

definition clearHealthData :: "device \<Rightarrow> unit result \<times> device" where
  "clearHealthData st =
     (case AsyncStorage_multiRemove [DIET_KEY, EXERCISE_KEY] st of
        (Inl err, st') \<Rightarrow> (Inl err, console_error ''Error clearing health data:'' st')
      | (Inr u, st') \<Rightarrow> (Inr (), st'))"

section \<open>Platform model: dates\<close>

text \<open>
  A \<^verbatim>\<open>Date\<close> holds a time value: milliseconds since the epoch, or \<^verbatim>\<open>NaN\<close> (an invalid
  date), here \<open>None\<close>. The functions are those of ECMA-262, section 21.4.1, on integers.
\<close>

type_synonym timevalue = "int option"

definition msPerDay :: int where
  "msPerDay = 86400000"

definition Day :: "int \<Rightarrow> int" where
  "Day t = t div msPerDay"

definition TimeWithinDay :: "int \<Rightarrow> int" where
  "TimeWithinDay t = t mod msPerDay"

definition WeekDay :: "int \<Rightarrow> int" where
  "WeekDay t = (Day t + 4) mod 7"

definition DayFromYear :: "int \<Rightarrow> int" where
  "DayFromYear y = 365 * (y - 1970) + (y - 1969) div 4 - (y - 1901) div 100 + (y - 1601) div 400"

text \<open>The largest year that starts on or before the day of \<open>t\<close>, found next to an estimate.\<close>

definition YearFromTime :: "int \<Rightarrow> int" where
  "YearFromTime t =
     (let d = Day t; y = 1970 + (d * 400) div 146097
      in if d < DayFromYear y then y - 1
         else if DayFromYear (y + 1) \<le> d then y + 1
         else y)"

definition DaysInYear :: "int \<Rightarrow> int" where
  "DaysInYear y = (if y mod 4 \<noteq> 0 then 365 else if y mod 100 \<noteq> 0 then 366
                   else if y mod 400 \<noteq> 0 then 365 else 366)"

definition InLeapYear :: "int \<Rightarrow> int" where
  "InLeapYear t = (if DaysInYear (YearFromTime t) = 366 then 1 else 0)"

definition DayWithinYear :: "int \<Rightarrow> int" where
  "DayWithinYear t = Day t - DayFromYear (YearFromTime t)"

text \<open>The day of the year on which month \<open>m\<close> (0 to 11) starts; \<open>l\<close> is 1 in a leap year.\<close>

definition monthStart :: "int \<Rightarrow> int \<Rightarrow> int" where
  "monthStart m l =
     (if m = 0 then 0 else if m = 1 then 31 else if m = 2 then 59 + l
      else if m = 3 then 90 + l else if m = 4 then 120 + l else if m = 5 then 151 + l
      else if m = 6 then 181 + l else if m = 7 then 212 + l else if m = 8 then 243 + l
      else if m = 9 then 273 + l else if m = 10 then 304 + l else 334 + l)"

definition MonthFromTime :: "int \<Rightarrow> int" where
  "MonthFromTime t =
     (let d = DayWithinYear t; l = InLeapYear t
      in if d < 31 then 0 else if d < 59 + l then 1 else if d < 90 + l then 2
         else if d < 120 + l then 3 else if d < 151 + l then 4 else if d < 181 + l then 5
         else if d < 212 + l then 6 else if d < 243 + l then 7 else if d < 273 + l then 8
         else if d < 304 + l then 9 else if d < 334 + l then 10 else 11)"

definition DateFromTime :: "int \<Rightarrow> int" where
  "DateFromTime t = DayWithinYear t + 1 - monthStart (MonthFromTime t) (InLeapYear t)"

text \<open>
  MakeDay: the day number of the first of the month, plus \<open>date - 1\<close>; a month outside
  0 to 11 carries into the year.
\<close>

definition MakeDay :: "int \<Rightarrow> int \<Rightarrow> int \<Rightarrow> int" where
  "MakeDay year month date =
     (let ym = year + month div 12; mn = month mod 12
      in DayFromYear ym + monthStart mn (if DaysInYear ym = 366 then 1 else 0) + date - 1)"

definition MakeDate :: "int \<Rightarrow> int \<Rightarrow> int" where
  "MakeDate day time = day * msPerDay + time"

definition TimeClip :: "int \<Rightarrow> timevalue" where
  "TimeClip t = (if \<bar>t\<bar> > 8640000000000000 then None else Some t)"

text \<open>
  What the device supplies: the clock; the local time zone, as the offset of local time at
  a UTC instant (\<open>LocalTZA_utc\<close>) and at a local time (\<open>LocalTZA_local\<close>); \<^verbatim>\<open>Date.parse\<close>,
  which is implementation-defined; and what \<^verbatim>\<open>new Date\<close> makes of an array, which turns
  it into a string first and may throw while doing so.
\<close>

record platform =
  clock :: int
  LocalTZA_utc :: "int \<Rightarrow> int"
  LocalTZA_local :: "int \<Rightarrow> int"
  Date_parse :: "string \<Rightarrow> timevalue"
  Date_ofArray :: "jsval list \<Rightarrow> timevalue result"

text \<open>
  \<^verbatim>\<open>new Date(v)\<close>, as the time value of the new date or the exception raised. A string is
  parsed; a number is clipped and truncated; \<^verbatim>\<open>undefined\<close> gives an invalid date,
  \<^verbatim>\<open>null\<close> and the booleans give 0 and 1. An object is first turned into a primitive:
  one read from JSON has no callable property, so if it has a \<^verbatim>\<open>toString\<close> of its own
  the conversion raises a TypeError, and otherwise it is the string \<^verbatim>\<open>[object Object]\<close>.
\<close>

fun Date_ofNumber :: "number \<Rightarrow> timevalue" where
  "Date_ofNumber (Finite q) =
     (if \<bar>q\<bar> > 8640000000000000 then None
      else Some (if 0 \<le> q then \<lfloor>q\<rfloor> else \<lceil>q\<rceil>))"
| "Date_ofNumber _ = None"

fun Date_of :: "platform \<Rightarrow> jsval \<Rightarrow> timevalue result" where
  "Date_of p (Str s) = Inr (Date_parse p s)"
| "Date_of p (Num n) = Inr (Date_ofNumber n)"
| "Date_of p Undefined = Inr None"
| "Date_of p Null = Inr (Some 0)"
| "Date_of p (Bool b) = Inr (Some (if b then 1 else 0))"
| "Date_of p (Arr vs) = Date_ofArray p vs"
| "Date_of p (Obj ps) =
     (if map_of ps ''toString'' \<noteq> None then Inl TypeError
      else Inr (Date_parse p ''[object Object]''))"

definition LocalTime :: "platform \<Rightarrow> int \<Rightarrow> int" where
  "LocalTime p t = t + LocalTZA_utc p t"

definition UTC :: "platform \<Rightarrow> int \<Rightarrow> int" where
  "UTC p t = t - LocalTZA_local p t"

definition getDate :: "platform \<Rightarrow> timevalue \<Rightarrow> int option" where
  "getDate p d = map_option (\<lambda>t. DateFromTime (LocalTime p t)) d"

definition getDay :: "platform \<Rightarrow> timevalue \<Rightarrow> int option" where
  "getDay p d = map_option (\<lambda>t. WeekDay (LocalTime p t)) d"

text \<open>\<^verbatim>\<open>d.setDate(n)\<close> and \<^verbatim>\<open>d.setHours(0, 0, 0, 0)\<close>, as the new time value of \<open>d\<close>.\<close>

definition setDate :: "platform \<Rightarrow> timevalue \<Rightarrow> int option \<Rightarrow> timevalue" where
  "setDate p d n =
     (case d of None \<Rightarrow> None
      | Some t0 \<Rightarrow>
          (case n of None \<Rightarrow> None
           | Some dt \<Rightarrow>
               (let t = LocalTime p t0;
                    newDate = MakeDate (MakeDay (YearFromTime t) (MonthFromTime t) dt)
                                (TimeWithinDay t)
                in TimeClip (UTC p newDate))))"

definition setHours0 :: "platform \<Rightarrow> timevalue \<Rightarrow> timevalue" where
  "setHours0 p d =
     (case d of None \<Rightarrow> None
      | Some t0 \<Rightarrow> (let t = LocalTime p t0 in TimeClip (UTC p (MakeDate (Day t) 0))))"

text \<open>
  \<^verbatim>\<open>toDateString()\<close> prints week day, month, day of the month and year of the local time,
  or \<^verbatim>\<open>Invalid Date\<close>; two such strings are equal when these four are.
\<close>

datatype dateString = InvalidDate | DateString int int int int

definition toDateString :: "platform \<Rightarrow> timevalue \<Rightarrow> dateString" where
  "toDateString p d =
     (case d of None \<Rightarrow> InvalidDate
      | Some t0 \<Rightarrow> (let t = LocalTime p t0
                    in DateString (WeekDay t) (MonthFromTime t) (DateFromTime t) (YearFromTime t)))"

text \<open>\<^verbatim>\<open>a >= b\<close> and \<^verbatim>\<open>a < b\<close> on dates compare time values; with \<^verbatim>\<open>NaN\<close> both are false.\<close>

definition date_ge :: "timevalue \<Rightarrow> timevalue \<Rightarrow> bool" where
  "date_ge a b = (case (a, b) of (Some x, Some y) \<Rightarrow> x \<ge> y | _ \<Rightarrow> False)"

definition date_lt :: "timevalue \<Rightarrow> timevalue \<Rightarrow> bool" where
  "date_lt a b = (case (a, b) of (Some x, Some y) \<Rightarrow> x < y | _ \<Rightarrow> False)"

text \<open>
  \<^verbatim>\<open>v.date\<close>, \<^verbatim>\<open>v.type\<close>: a TypeError on \<^verbatim>\<open>null\<close> and \<^verbatim>\<open>undefined\<close>, the own property
  of an object, \<^verbatim>\<open>undefined\<close> where there is none (no prototype has these two names).
\<close>

fun GetV :: "jsval \<Rightarrow> string \<Rightarrow> jsval result" where
  "GetV Undefined k = Inl TypeError"
| "GetV Null k = Inl TypeError"
| "GetV (Obj ps) k = Inr (case map_of ps k of None \<Rightarrow> Undefined | Some v \<Rightarrow> v)"
| "GetV _ k = Inr Undefined"

text \<open>\<^verbatim>\<open>xs.filter(f)\<close>: a TypeError unless \<open>xs\<close> is an array; an exception of \<open>f\<close> ends it.\<close>

fun filterM :: "(jsval \<Rightarrow> bool result) \<Rightarrow> jsval list \<Rightarrow> jsval list result" where
  "filterM f [] = Inr []"
| "filterM f (x # xs) =
     (case f x of
        Inl err \<Rightarrow> Inl err
      | Inr b \<Rightarrow> (case filterM f xs of
                    Inl err \<Rightarrow> Inl err
                  | Inr ys \<Rightarrow> Inr (if b then x # ys else ys)))"

fun Array_filter :: "(jsval \<Rightarrow> bool result) \<Rightarrow> jsval \<Rightarrow> jsval list result" where
  "Array_filter f (Arr vs) = filterM f vs"
| "Array_filter f _ = Inl TypeError"

section \<open>Derived views\<close>

text \<open>
  \<^verbatim>\<open>getTodaysDietEntries\<close> and \<^verbatim>\<open>getTodaysExerciseEntries\<close> are one function but for
  the getter and the message: \<open>todaysEntries\<close>. \<open>isToday\<close> is the callback of
  \<^verbatim>\<open>filter\<close>: \<^verbatim>\<open>new Date(entry.date).toDateString() === today\<close>, which throws when
  reading \<^verbatim>\<open>entry.date\<close> or \<^verbatim>\<open>new Date\<close> does. Everything is inside \<^verbatim>\<open>try\<close>; the
  \<^verbatim>\<open>catch\<close> logs and returns \<^verbatim>\<open>[]\<close>.
\<close>

definition isToday :: "platform \<Rightarrow> jsval \<Rightarrow> bool result" where
  "isToday p entry =
     (case GetV entry ''date'' of
        Inl err \<Rightarrow> Inl err
      | Inr v \<Rightarrow>
          (case Date_of p v of
             Inl err \<Rightarrow> Inl err
           | Inr d \<Rightarrow> Inr (toDateString p d = toDateString p (Some (clock p)))))"

definition todaysEntries ::
  "(device \<Rightarrow> jsval result \<times> device) \<Rightarrow> string \<Rightarrow> platform \<Rightarrow> device
     \<Rightarrow> jsval list result \<times> device" where
  "todaysEntries getEntries msg p st =
     (case getEntries st of
        (Inl err, st1) \<Rightarrow> (Inr [], console_error msg st1)
      | (Inr entries, st1) \<Rightarrow>
          (case Array_filter (isToday p) entries of
             Inl err \<Rightarrow> (Inr [], console_error msg st1)
           | Inr es \<Rightarrow> (Inr es, st1)))"

definition getTodaysDietEntries :: "platform \<Rightarrow> device \<Rightarrow> jsval list result \<times> device" where
  "getTodaysDietEntries = todaysEntries getDietEntries ''Error getting today's diet entries:''"

definition getTodaysExerciseEntries :: "platform \<Rightarrow> device \<Rightarrow> jsval list result \<times> device" where
  "getTodaysExerciseEntries =
     todaysEntries getExerciseEntries ''Error getting today's exercise entries:''"

text \<open>
  \<^verbatim>\<open>getWeeklyExerciseProgress\<close>. \<open>weekStart\<close> is the clock's date after
  \<^verbatim>\<open>setDate(today.getDate() - today.getDay())\<close> and \<^verbatim>\<open>setHours(0, 0, 0, 0)\<close>; \<open>weekEnd\<close>
  is a copy of it after \<^verbatim>\<open>setDate(weekStart.getDate() + 7)\<close>. \<open>inWeek\<close> and \<open>hasType\<close>
  are the callbacks of the filters; the \<^verbatim>\<open>catch\<close> logs and returns four zeros.
\<close>

definition weekStart :: "platform \<Rightarrow> timevalue" where
  "weekStart p =
     (let today = Some (clock p);
          d = setDate p today
                (case (getDate p today, getDay p today) of
                   (Some a, Some b) \<Rightarrow> Some (a - b) | _ \<Rightarrow> None)
      in setHours0 p d)"

definition weekEnd :: "platform \<Rightarrow> timevalue" where
  "weekEnd p = setDate p (weekStart p) (map_option (\<lambda>a. a + 7) (getDate p (weekStart p)))"

definition inWeek :: "platform \<Rightarrow> jsval \<Rightarrow> bool result" where
  "inWeek p entry =
     (case GetV entry ''date'' of
        Inl err \<Rightarrow> Inl err
      | Inr v \<Rightarrow>
          (case Date_of p v of
             Inl err \<Rightarrow> Inl err
           | Inr d \<Rightarrow> Inr (date_ge d (weekStart p) \<and> date_lt d (weekEnd p))))"

definition hasType :: "string \<Rightarrow> jsval \<Rightarrow> bool result" where
  "hasType ty entry =
     (case GetV entry ''type'' of Inl err \<Rightarrow> Inl err | Inr v \<Rightarrow> Inr (v = Str ty))"

record progress =
  strength :: nat
  cardio :: nat
  walking :: nat
  flexibility :: nat

definition countType :: "string \<Rightarrow> jsval list \<Rightarrow> nat result" where
  "countType ty es = (case filterM (hasType ty) es of Inl err \<Rightarrow> Inl err | Inr ys \<Rightarrow> Inr (length ys))"

definition zeroProgress :: progress where
  "zeroProgress = \<lparr>strength = 0, cardio = 0, walking = 0, flexibility = 0\<rparr>"

definition weeklyCounts :: "platform \<Rightarrow> jsval \<Rightarrow> progress result" where
  "weeklyCounts p entries =
     (case Array_filter (inWeek p) entries of
        Inl err \<Rightarrow> Inl err
      | Inr weeklyEntries \<Rightarrow>
          (case countType ''strength'' weeklyEntries of Inl err \<Rightarrow> Inl err | Inr s \<Rightarrow>
          (case countType ''cardio'' weeklyEntries of Inl err \<Rightarrow> Inl err | Inr c \<Rightarrow>
          (case countType ''walking'' weeklyEntries of Inl err \<Rightarrow> Inl err | Inr w \<Rightarrow>
          (case countType ''flexibility'' weeklyEntries of Inl err \<Rightarrow> Inl err | Inr f \<Rightarrow>
             Inr \<lparr>strength = s, cardio = c, walking = w, flexibility = f\<rparr>)))))"

definition getWeeklyExerciseProgress :: "platform \<Rightarrow> device \<Rightarrow> progress result \<times> device" where
  "getWeeklyExerciseProgress p st =
     (case getExerciseEntries st of
        (Inl err, st1) \<Rightarrow>
          (Inr zeroProgress, console_error ''Error getting weekly exercise progress:'' st1)
      | (Inr entries, st1) \<Rightarrow>
          (case weeklyCounts p entries of
             Inl err \<Rightarrow>
               (Inr zeroProgress, console_error ''Error getting weekly exercise progress:'' st1)
           | Inr r \<Rightarrow> (Inr r, st1)))"

section \<open>The screens' save actions\<close>

text \<open>
  What a save action shows (\<^verbatim>\<open>Alert.alert(title, message)\<close>), and what the platform hands
  it when it runs: the strings \<^verbatim>\<open>Date.now().toString()\<close> and
  \<^verbatim>\<open>new Date().toISOString()\<close>.
\<close>

datatype notice = Alert string string

record stamps =
  Date_now_toString :: string
  toISOString :: string

record AddMealScreen =
  selectedMealType :: string
  foodItems :: "FoodItem list"

record totals =
  sum_calories :: number
  sum_protein :: number
  sum_carbs :: number
  sum_fat :: number

text \<open>\<^verbatim>\<open>calculateTotals\<close>: a \<^verbatim>\<open>reduce\<close> from the left, starting at zero.\<close>

definition calculateTotals :: "FoodItem list \<Rightarrow> totals" where
  "calculateTotals fs =
     foldl (\<lambda>acc item.
              \<lparr>sum_calories = js_add (sum_calories acc) (calories item),
               sum_protein = js_add (sum_protein acc) (protein item),
               sum_carbs = js_add (sum_carbs acc) (carbs item),
               sum_fat = js_add (sum_fat acc) (fat item)\<rparr>)
       \<lparr>sum_calories = Finite 0, sum_protein = Finite 0, sum_carbs = Finite 0,
        sum_fat = Finite 0\<rparr> fs"

text \<open>
  \<^verbatim>\<open>saveMeal\<close>: an empty list of food items is turned away before anything else; otherwise
  the entry is built and handed to \<^verbatim>\<open>addDietEntry\<close>, whose exception becomes an alert.
\<close>

definition saveMeal :: "stamps \<Rightarrow> AddMealScreen \<Rightarrow> device \<Rightarrow> notice \<times> device" where
  "saveMeal now ui st =
     (if length (foodItems ui) = 0
      then (Alert ''Error'' ''Please add at least one food item'', st)
      else
        (let totals = calculateTotals (foodItems ui)
         in case addDietEntry
                   \<lparr>diet_id = Date_now_toString now, diet_date = toISOString now,
                    mealType = selectedMealType ui, foods = foodItems ui,
                    totalCalories = sum_calories totals, totalProtein = sum_protein totals,
                    totalCarbs = sum_carbs totals, totalFat = sum_fat totals\<rparr> st of
              (Inl err, st') \<Rightarrow>
                (Alert ''Error'' ''Failed to save meal'', console_error ''Error saving meal:'' st')
            | (Inr u, st') \<Rightarrow> (Alert ''Success'' ''Meal saved successfully'', st')))"

text \<open>The state of the workout screen; \<open>workout_exercises\<close> is its \<^verbatim>\<open>exercises\<close>.\<close>

record AddWorkoutScreen =
  selectedType :: string
  workout_exercises :: "Exercise list"
  workoutDuration :: string

definition saveWorkout :: "stamps \<Rightarrow> AddWorkoutScreen \<Rightarrow> device \<Rightarrow> notice \<times> device" where
  "saveWorkout now ui st =
     (if length (workout_exercises ui) = 0
      then (Alert ''Error'' ''Please add at least one exercise'', st)
      else if trim (workoutDuration ui) = []
      then (Alert ''Error'' ''Please enter workout duration'', st)
      else
        (let duration = parseInt (workoutDuration ui)
         in if isNaN duration \<or> js_le duration (Finite 0)
            then (Alert ''Error'' ''Please enter a valid duration'', st)
            else
              (let caloriesBurned = Math_round (js_mul duration (Finite 5))
               in case addExerciseEntry
                         \<lparr>exercise_id = Date_now_toString now, exercise_date = toISOString now,
                          exercise_type = selectedType ui, exercises = workout_exercises ui,
                          duration = duration, caloriesBurned = caloriesBurned\<rparr> st of
                    (Inl err, st') \<Rightarrow>
                      (Alert ''Error'' ''Failed to save workout'',
                       console_error ''Error saving workout:'' st')
                  | (Inr u, st') \<Rightarrow> (Alert ''Success'' ''Workout saved successfully'', st'))))"

section \<open>States and data used in the statements\<close>

text \<open>A device that holds nothing and whose provider never rejects a call.\<close>

definition freshDevice :: device where
  "freshDevice = \<lparr>items = (\<lambda>k. None), trace = [], faults = (\<lambda>n. False), console = []\<rparr>"

text \<open>
  What a key may hold for the read to end in the \<^verbatim>\<open>[]\<close> branch: nothing, the empty
  text, or a text that is not JSON. A text that denotes a JSON value is returned as that
  value.
\<close>

fun unreadable :: "blob option \<Rightarrow> bool" where
  "unreadable None = True"
| "unreadable (Some EmptyString) = True"
| "unreadable (Some Unparsable) = True"
| "unreadable (Some (Json j)) = False"

text \<open>A meal, a workout, and the device after both were saved on a fresh one.\<close>

definition meal1 :: DietEntry where
  "meal1 = \<lparr>diet_id = ''1793507400000'', diet_date = ''2026-11-01T04:30:00.000Z'',
     mealType = ''lunch'',
     foods = [\<lparr>food_name = ''rice'', calories = Finite 200, protein = Finite 4,
               carbs = Finite 45, fat = Finite 1\<rparr>],
     totalCalories = Finite 200, totalProtein = Finite 4, totalCarbs = Finite 45,
     totalFat = Finite 1\<rparr>"

definition workout1 :: ExerciseEntry where
  "workout1 = \<lparr>exercise_id = ''1793507400001'', exercise_date = ''2026-11-01T04:30:00.000Z'',
     exercise_type = ''cardio'',
     exercises = [\<lparr>exercise_name = ''Running'', sets = None, reps = None, weight = None,
                   exercise_duration = Some (Finite 30), distance = None\<rparr>],
     duration = Finite 30, caloriesBurned = Finite 150\<rparr>"

definition usedDevice :: device where
  "usedDevice = snd (addExerciseEntry workout1 (snd (addDietEntry meal1 freshDevice)))"

text \<open>Appending a sequence of entries, one call after the other, until one fails.\<close>

fun addDietEntries :: "DietEntry list \<Rightarrow> device \<Rightarrow> unit result \<times> device" where
  "addDietEntries [] st = (Inr (), st)"
| "addDietEntries (e # es) st =
     (case addDietEntry e st of
        (Inl err, st') \<Rightarrow> (Inl err, st')
      | (Inr u, st') \<Rightarrow> addDietEntries es st')"

text \<open>What a value is after \<^verbatim>\<open>JSON.stringify\<close> and \<^verbatim>\<open>JSON.parse\<close>.\<close>

definition readBack :: "jsval \<Rightarrow> jsval" where
  "readBack v = InternalizeJSONProperty (SerializeJSONProperty v)"

text \<open>An entry all of whose numbers are finite.\<close>

fun isFinite :: "number \<Rightarrow> bool" where
  "isFinite (Finite q) = True"
| "isFinite _ = False"

definition finiteFood :: "FoodItem \<Rightarrow> bool" where
  "finiteFood f = (isFinite (calories f) \<and> isFinite (protein f) \<and> isFinite (carbs f) \<and> isFinite (fat f))"

definition finiteEntry :: "DietEntry \<Rightarrow> bool" where
  "finiteEntry e = (list_all finiteFood (foods e) \<and> isFinite (totalCalories e)
     \<and> isFinite (totalProtein e) \<and> isFinite (totalCarbs e) \<and> isFinite (totalFat e))"

text \<open>The key holds the JSON array \<open>js\<close> (or nothing, for the empty one).\<close>

definition holds :: "device \<Rightarrow> string \<Rightarrow> json list \<Rightarrow> bool" where
  "holds st key js = (items st key = Some (Json (JArr js)) \<or> js = [] \<and> items st key = None)"

text \<open>A meal with an infinite number, and a meal of two foods.\<close>

definition feast :: DietEntry where
  "feast = \<lparr>diet_id = ''1793507400002'', diet_date = ''2026-11-01T04:30:00.000Z'',
     mealType = ''dinner'',
     foods = [\<lparr>food_name = ''buffet'', calories = PosInfinity, protein = Finite 0,
               carbs = Finite 0, fat = Finite 0\<rparr>],
     totalCalories = PosInfinity, totalProtein = Finite 0, totalCarbs = Finite 0,
     totalFat = Finite 0\<rparr>"

definition meal2 :: DietEntry where
  "meal2 = \<lparr>diet_id = ''1793511000000'', diet_date = ''2026-11-01T05:30:00.000Z'',
     mealType = ''snacks'',
     foods = [\<lparr>food_name = ''apple'', calories = Finite 95, protein = Finite 0,
               carbs = Finite 25, fat = Finite 0\<rparr>,
              \<lparr>food_name = ''yoghurt'', calories = Finite 150, protein = Finite (17 / 2),
               carbs = Finite 17, fat = Finite 4\<rparr>],
     totalCalories = Finite 245, totalProtein = Finite (17 / 2), totalCarbs = Finite 42,
     totalFat = Finite 4\<rparr>"

text \<open>A device whose diet key holds a text that is not JSON.\<close>

definition corruptDevice :: device where
  "corruptDevice = freshDevice\<lparr>items := (\<lambda>k. if k = DIET_KEY then Some Unparsable else None)\<rparr>"

text \<open>
  The states the program can be in. A device starts with nothing stored, under any
  schedule of provider faults, and from then on only the operations of the module and the
  two save actions touch it, in any order and with any arguments. \<open>run acts (installed fs)\<close>
  is the state after the calls \<open>acts\<close>.
\<close>

definition installed :: "(nat \<Rightarrow> bool) \<Rightarrow> device" where
  "installed fs = \<lparr>items = (\<lambda>k. None), trace = [], faults = fs, console = []\<rparr>"

datatype action =
    AddDietEntry DietEntry
  | AddExerciseEntry ExerciseEntry
  | ClearHealthData
  | GetDietEntries
  | GetExerciseEntries
  | GetTodaysDietEntries platform
  | GetTodaysExerciseEntries platform
  | GetWeeklyExerciseProgress platform
  | SaveMeal stamps AddMealScreen
  | SaveWorkout stamps AddWorkoutScreen

fun perform :: "action \<Rightarrow> device \<Rightarrow> device" where
  "perform (AddDietEntry e) st = snd (addDietEntry e st)"
| "perform (AddExerciseEntry e) st = snd (addExerciseEntry e st)"
| "perform ClearHealthData st = snd (clearHealthData st)"
| "perform GetDietEntries st = snd (getDietEntries st)"
| "perform GetExerciseEntries st = snd (getExerciseEntries st)"
| "perform (GetTodaysDietEntries p) st = snd (getTodaysDietEntries p st)"
| "perform (GetTodaysExerciseEntries p) st = snd (getTodaysExerciseEntries p st)"
| "perform (GetWeeklyExerciseProgress p) st = snd (getWeeklyExerciseProgress p st)"
| "perform (SaveMeal now ui) st = snd (saveMeal now ui st)"
| "perform (SaveWorkout now ui) st = snd (saveWorkout now ui st)"

definition run :: "action list \<Rightarrow> device \<Rightarrow> device" where
  "run acts st = fold perform acts st"

text \<open>
  Each key holds nothing or the JSON array of a list of entries of its kind: what every
  state the program can be in satisfies.
\<close>

definition storesEntries :: "device \<Rightarrow> bool" where
  "storesEntries st =
     ((\<exists>ds. holds st DIET_KEY (map (\<lambda>e. SerializeJSONProperty (DietEntry_obj e)) ds))
      \<and> (\<exists>xs. holds st EXERCISE_KEY (map (\<lambda>e. SerializeJSONProperty (ExerciseEntry_obj e)) xs)))"

text \<open>An entry as it is read back from the store.\<close>

definition storedDiet :: "DietEntry \<Rightarrow> jsval" where
  "storedDiet e = readBack (DietEntry_obj e)"

definition storedExercise :: "ExerciseEntry \<Rightarrow> jsval" where
  "storedExercise e = readBack (ExerciseEntry_obj e)"

text \<open>A date lies on the local calendar day of the clock.\<close>

definition onLocalDay :: "platform \<Rightarrow> timevalue \<Rightarrow> bool" where
  "onLocalDay p d =
     (case d of None \<Rightarrow> False | Some t \<Rightarrow> Day (LocalTime p t) = Day (LocalTime p (clock p)))"








text \<open>
  The sum of a list of numbers as the code forms it, from the left and in doubles, and the
  lists of integers all of whose partial sums are at most \<open>2^53\<close> in absolute value.
\<close>

definition floatSum :: "number list \<Rightarrow> number" where
  "floatSum ns = foldl js_add (Finite 0) ns"

fun exactFrom :: "int \<Rightarrow> int list \<Rightarrow> bool" where
  "exactFrom a [] = (\<bar>a\<bar> \<le> 2 ^ 53)"
| "exactFrom a (n # ns) = (\<bar>a\<bar> \<le> 2 ^ 53 \<and> exactFrom (a + n) ns)"

text \<open>
  The entries the two save actions are to write: the meal of the screen with each total
  the \<open>floatSum\<close> of its column, and the workout of the screen with the duration read from
  the text field and that duration times five, in doubles, rounded to an integer.
\<close>

definition mealEntry :: "stamps \<Rightarrow> AddMealScreen \<Rightarrow> DietEntry" where
  "mealEntry now ui =
     \<lparr>diet_id = Date_now_toString now, diet_date = toISOString now,
      mealType = selectedMealType ui, foods = foodItems ui,
      totalCalories = floatSum (map calories (foodItems ui)),
      totalProtein = floatSum (map protein (foodItems ui)),
      totalCarbs = floatSum (map carbs (foodItems ui)),
      totalFat = floatSum (map fat (foodItems ui))\<rparr>"


text \<open>
  Sample platforms: a \<^verbatim>\<open>Date.parse\<close> that knows a few ISO strings; a device on UTC; a
  device in New York around the end of daylight saving time on 1 November 2026 (06:00 UTC),
  when the offset goes from four to five hours behind UTC; and a device in Havana around
  the start of daylight saving time on 8 March 2026 (05:00 UTC), when local time jumps from
  Sunday 00:00 to 01:00 and the offset goes from five to four hours behind UTC. A local
  time that a clock change skips is read with the offset before the change.
\<close>

definition sampleDates :: "string \<Rightarrow> timevalue" where
  "sampleDates s =
     (if s = ''2026-11-01T04:30:00.000Z'' then Some 1793507400000
      else if s = ''2026-11-01T05:30:00.000Z'' then Some 1793511000000
      else if s = ''2026-11-01T00:00:00.000Z'' then Some 1793491200000
      else if s = ''2026-11-08T00:00:00.000Z'' then Some 1794096000000
      else None)"

definition zonePlatform :: "int \<Rightarrow> (int \<Rightarrow> int) \<Rightarrow> (int \<Rightarrow> int) \<Rightarrow> platform" where
  "zonePlatform now atUTC atLocal = \<lparr>clock = now, LocalTZA_utc = atUTC, LocalTZA_local = atLocal,
     Date_parse = sampleDates, Date_ofArray = (\<lambda>vs. Inr None)\<rparr>"

definition utcPlatform :: "int \<Rightarrow> platform" where
  "utcPlatform now = zonePlatform now (\<lambda>t. 0) (\<lambda>t. 0)"

definition newYorkPlatform :: "int \<Rightarrow> platform" where
  "newYorkPlatform now = zonePlatform now
     (\<lambda>t. if t < 1793512800000 then - 14400000 else - 18000000)
     (\<lambda>t. if t < 1793498400000 then - 14400000 else - 18000000)"


definition wednesday :: platform where
  "wednesday = utcPlatform 1793793600000"






definition stamp1 :: stamps where
  "stamp1 = \<lparr>Date_now_toString = ''1793511000000'', toISOString = ''2026-11-01T05:30:00.000Z''\<rparr>"

definition snackForm :: AddMealScreen where
  "snackForm = \<lparr>selectedMealType = ''snacks'', foodItems = foods meal2\<rparr>"

definition emptyForm :: AddMealScreen where
  "emptyForm = \<lparr>selectedMealType = ''breakfast'', foodItems = []\<rparr>"

definition bigForm :: AddMealScreen where
  "bigForm = \<lparr>selectedMealType = ''dinner'',
     foodItems = [\<lparr>food_name = ''feast'', calories = Finite 9007199254740992,
                    protein = Finite 0, carbs = Finite 0, fat = Finite 0\<rparr>,
                  \<lparr>food_name = ''mint'', calories = Finite 1, protein = Finite 0,
                    carbs = Finite 0, fat = Finite 0\<rparr>]\<rparr>"

definition bigMeal :: DietEntry where
  "bigMeal = \<lparr>diet_id = Date_now_toString stamp1, diet_date = toISOString stamp1,
     mealType = ''dinner'', foods = foodItems bigForm,
     totalCalories = Finite 9007199254740992, totalProtein = Finite 0,
     totalCarbs = Finite 0, totalFat = Finite 0\<rparr>"



section \<open>Properties of the record store\<close>

lemma keys_distinct: "DIET_KEY \<noteq> EXERCISE_KEY"
  by (simp add: DIET_KEY_def EXERCISE_KEY_def)

lemma readEntries_cases:
  "readEntries key msg st =
     (if rejected st then (Inr (Arr []), console_error msg (st\<lparr>trace := trace st @ [GetItem key]\<rparr>))
      else case items st key of
             None \<Rightarrow> (Inr (Arr []), st\<lparr>trace := trace st @ [GetItem key]\<rparr>)
           | Some EmptyString \<Rightarrow> (Inr (Arr []), st\<lparr>trace := trace st @ [GetItem key]\<rparr>)
           | Some Unparsable \<Rightarrow> (Inr (Arr []), console_error msg (st\<lparr>trace := trace st @ [GetItem key]\<rparr>))
           | Some (Json j) \<Rightarrow> (Inr (InternalizeJSONProperty j), st\<lparr>trace := trace st @ [GetItem key]\<rparr>))"
  by (simp add: readEntries_def AsyncStorage_getItem_def Let_def split: option.splits blob.splits)

lemma readEntries_items [simp]: "items (snd (readEntries key msg st)) = items st"
  by (simp add: readEntries_cases console_error_def split: option.splits blob.splits)

lemma readEntries_faults [simp]: "faults (snd (readEntries key msg st)) = faults st"
  by (simp add: readEntries_cases console_error_def split: option.splits blob.splits)

lemma readEntries_trace [simp]: "trace (snd (readEntries key msg st)) = trace st @ [GetItem key]"
  by (simp add: readEntries_cases console_error_def split: option.splits blob.splits)

lemma readEntries_returns: "\<exists>v. fst (readEntries key msg st) = Inr v"
  by (simp add: readEntries_cases split: option.splits blob.splits)

lemma readEntries_unreadable:
  "rejected st \<or> unreadable (items st key) \<Longrightarrow> fst (readEntries key msg st) = Inr (Arr [])"
  by (auto simp: readEntries_cases split: option.splits blob.splits)

lemma appendEntry_array:
  assumes "fst (readEntries key m1 st) = Inr (Arr vs)"
  shows "appendEntry (readEntries key m1) key m2 entry st =
     (let st1 = snd (readEntries key m1 st); b = JSON_stringify (vs @ [entry]);
          st2 = st1\<lparr>trace := trace st1 @ [SetItem key b]\<rparr>
      in if rejected st1 then (Inl ProviderError, console_error m2 st2)
         else (Inr (), st2\<lparr>items := (items st1)(key \<mapsto> b)\<rparr>))"
proof -
  obtain st1 where r: "readEntries key m1 st = (Inr (Arr vs), st1)"
    using assms by (cases "readEntries key m1 st") simp
  show ?thesis
    by (simp add: appendEntry_def r AsyncStorage_setItem_def Let_def)
qed

lemma appendEntry_other_key:
  "k \<noteq> key \<Longrightarrow> items (snd (appendEntry (readEntries key m1) key m2 entry st)) k = items st k"
proof -
  assume k: "k \<noteq> key"
  obtain v st1 where r: "readEntries key m1 st = (Inr v, st1)"
    using readEntries_returns [of key m1 st] by (cases "readEntries key m1 st") auto
  have i: "items st1 = items st"
    using readEntries_items [of key m1 st] by (simp add: r)
  show ?thesis
    using k i
    by (cases "Array_push v entry")
       (auto simp: appendEntry_def r AsyncStorage_setItem_def Let_def console_error_def)
qed

lemma clearHealthData_cases:
  "clearHealthData st =
     (let st' = st\<lparr>trace := trace st @ [MultiRemove [DIET_KEY, EXERCISE_KEY]]\<rparr>
      in if rejected st then (Inl ProviderError, console_error ''Error clearing health data:'' st')
         else (Inr (), st'\<lparr>items := (\<lambda>k. if k = DIET_KEY \<or> k = EXERCISE_KEY then None else items st k)\<rparr>))"
  by (auto simp: clearHealthData_def AsyncStorage_multiRemove_def Let_def)

lemmas run_defs = freshDevice_def addDietEntry_def addExerciseEntry_def appendEntry_def
  getDietEntries_def getExerciseEntries_def readEntries_def AsyncStorage_getItem_def
  AsyncStorage_setItem_def AsyncStorage_multiRemove_def clearHealthData_def rejected_def
  console_error_def JSON_stringify_def DIET_KEY_def EXERCISE_KEY_def Let_def

lemma usedDevice_trace: "length (trace usedDevice) = 4"
  by (simp add: usedDevice_def run_defs)

lemma usedDevice_items:
  "items usedDevice DIET_KEY = Some (JSON_stringify [DietEntry_obj meal1])"
  "items usedDevice EXERCISE_KEY = Some (JSON_stringify [ExerciseEntry_obj workout1])"
  "faults usedDevice = (\<lambda>n. False)"
  by (simp_all add: usedDevice_def run_defs)

text \<open>
  C6. After a successful \<^verbatim>\<open>clearHealthData\<close>, however many entries of either kind the
  device held, \<^verbatim>\<open>getDietEntries\<close> and \<^verbatim>\<open>getExerciseEntries\<close> both return the empty
  array, in any later state that holds the same items.
\<close>

theorem clearHealthData_empties:
  assumes "fst (clearHealthData st) = Inr ()" and "items st' = items (snd (clearHealthData st))"
  shows "fst (getDietEntries st') = Inr (Arr []) \<and> fst (getExerciseEntries st') = Inr (Arr [])"
proof -
  have "\<not> rejected st"
    using assms(1) by (auto simp: clearHealthData_cases Let_def split: if_splits)
  then have "items st' DIET_KEY = None" "items st' EXERCISE_KEY = None"
    using assms(2) by (simp_all add: clearHealthData_cases Let_def)
  then show ?thesis
    by (simp add: getDietEntries_def getExerciseEntries_def readEntries_unreadable)
qed

theorem clearHealthData_empties_witness:
  "fst (clearHealthData usedDevice) = Inr ()
   \<and> fst (getDietEntries usedDevice) \<noteq> Inr (Arr [])
   \<and> fst (getExerciseEntries usedDevice) \<noteq> Inr (Arr [])
   \<and> fst (getDietEntries (snd (clearHealthData usedDevice))) = Inr (Arr [])
   \<and> fst (getExerciseEntries (snd (clearHealthData usedDevice))) = Inr (Arr [])"
proof -
  have ok: "fst (clearHealthData usedDevice) = Inr ()"
    by (simp add: clearHealthData_cases rejected_def usedDevice_items Let_def)
  have d: "fst (getDietEntries usedDevice) \<noteq> Inr (Arr [])"
    by (simp add: getDietEntries_def readEntries_cases rejected_def usedDevice_items JSON_stringify_def)
  have x: "fst (getExerciseEntries usedDevice) \<noteq> Inr (Arr [])"
    by (simp add: getExerciseEntries_def readEntries_cases rejected_def usedDevice_items JSON_stringify_def)
  show ?thesis
    using clearHealthData_empties [OF ok refl] ok d x by simp
qed

text \<open>
  C9. The two collections are independent: \<^verbatim>\<open>addDietEntry\<close> leaves what is stored under
  \<^verbatim>\<open>@exercise_entries\<close> as it was, \<^verbatim>\<open>addExerciseEntry\<close> leaves what is stored under
  \<^verbatim>\<open>@diet_entries\<close> as it was, whatever the device held and whether or not the call
  succeeded; so the other collection reads the same before and after, the provider
  answering alike.
\<close>

theorem collections_independent:
  "items (snd (addDietEntry d st)) EXERCISE_KEY = items st EXERCISE_KEY
   \<and> items (snd (addExerciseEntry x st)) DIET_KEY = items st DIET_KEY
   \<and> fst (getExerciseEntries (snd (addDietEntry d st)\<lparr>trace := tr, faults := fs\<rparr>))
       = fst (getExerciseEntries (st\<lparr>trace := tr, faults := fs\<rparr>))
   \<and> fst (getDietEntries (snd (addExerciseEntry x st)\<lparr>trace := tr, faults := fs\<rparr>))
       = fst (getDietEntries (st\<lparr>trace := tr, faults := fs\<rparr>))"
proof -
  have a: "items (snd (addDietEntry d st)) EXERCISE_KEY = items st EXERCISE_KEY"
    unfolding addDietEntry_def getDietEntries_def
    by (rule appendEntry_other_key) (simp add: keys_distinct [symmetric])
  have b: "items (snd (addExerciseEntry x st)) DIET_KEY = items st DIET_KEY"
    unfolding addExerciseEntry_def getExerciseEntries_def
    by (rule appendEntry_other_key) (simp add: keys_distinct)
  have c: "fst (readEntries key msg (s1\<lparr>trace := tr, faults := fs\<rparr>))
           = fst (readEntries key msg (s2\<lparr>trace := tr, faults := fs\<rparr>))"
    if "items s1 key = items s2 key" for key msg and s1 s2 :: device
    using that by (simp add: readEntries_cases rejected_def split: option.splits blob.splits)
  show ?thesis
    using a b c [of "snd (addDietEntry d st)" EXERCISE_KEY st]
      c [of "snd (addExerciseEntry x st)" DIET_KEY st]
    by (simp add: getDietEntries_def getExerciseEntries_def)
qed

lemma Internalize_defined: "InternalizeJSONProperty j \<noteq> Undefined"
  by (cases j) simp_all

lemma Serialize_Internalize: "SerializeJSONProperty (InternalizeJSONProperty j) = j"
proof (induction j)
  case (JArr js)
  then show ?case by (simp add: map_idI)
next
  case (JObj ps)
  have f: "filter (\<lambda>(k, v). v \<noteq> Undefined) (map (\<lambda>(k, j). (k, InternalizeJSONProperty j)) ps)
           = map (\<lambda>(k, j). (k, InternalizeJSONProperty j)) ps"
    by (rule filter_True) (auto simp: Internalize_defined)
  have "\<And>k j. (k, j) \<in> set ps \<Longrightarrow> SerializeJSONProperty (InternalizeJSONProperty j) = j"
    using JObj.IH by force
  then have "map ((\<lambda>(k, v). (k, SerializeJSONProperty v)) \<circ> (\<lambda>(k, j). (k, InternalizeJSONProperty j))) ps = ps"
    by (intro map_idI) auto
  then show ?case by (simp add: f)
qed simp_all

lemma readEntries_holds:
  "\<not> rejected st \<Longrightarrow> holds st key js \<Longrightarrow>
   fst (readEntries key msg st) = Inr (Arr (map InternalizeJSONProperty js))"
  by (auto simp: holds_def readEntries_cases)

lemma appendEntry_holds:
  assumes "\<not> faults st (length (trace st))" "\<not> faults st (Suc (length (trace st)))"
    and "holds st key js"
  shows "fst (appendEntry (readEntries key m1) key m2 entry st) = Inr ()
     \<and> items (snd (appendEntry (readEntries key m1) key m2 entry st)) key
         = Some (Json (JArr (js @ [SerializeJSONProperty entry])))
     \<and> faults (snd (appendEntry (readEntries key m1) key m2 entry st)) = faults st"
proof -
  have r: "fst (readEntries key m1 st) = Inr (Arr (map InternalizeJSONProperty js))"
    using assms by (simp add: readEntries_holds rejected_def)
  have nr: "\<not> rejected (snd (readEntries key m1 st))"
    using assms(2) by (simp add: rejected_def)
  show ?thesis
    by (simp add: appendEntry_array [OF r] nr Let_def JSON_stringify_def
        Serialize_Internalize comp_def)
qed

lemma addDietEntries_holds:
  assumes "\<forall>n. \<not> faults st n" and "holds st DIET_KEY js"
  shows "fst (addDietEntries es st) = Inr ()
     \<and> holds (snd (addDietEntries es st)) DIET_KEY
         (js @ map (\<lambda>e. SerializeJSONProperty (DietEntry_obj e)) es)
     \<and> faults (snd (addDietEntries es st)) = faults st"
  using assms
proof (induction es arbitrary: st js)
  case Nil
  then show ?case by simp
next
  case (Cons e es)
  obtain r st1 where a: "addDietEntry e st = (r, st1)"
    by (cases "addDietEntry e st")
  have step: "r = Inr () \<and> items st1 DIET_KEY = Some (Json (JArr (js @ [SerializeJSONProperty (DietEntry_obj e)])))
      \<and> faults st1 = faults st"
    using appendEntry_holds [of st DIET_KEY js "''Error getting diet entries:''"
        "''Error adding diet entry:''" "DietEntry_obj e"] Cons.prems a
    by (simp add: addDietEntry_def getDietEntries_def)
  then have h: "holds st1 DIET_KEY (js @ [SerializeJSONProperty (DietEntry_obj e)])"
    and f: "\<forall>n. \<not> faults st1 n"
    using Cons.prems by (simp_all add: holds_def)
  show ?case
    using Cons.IH [OF f h] step by (simp add: a)
qed

lemma isFinite_readBack: "isFinite n \<Longrightarrow> readBack (Num n) = Num n"
  by (cases n) (simp_all add: readBack_def)

lemma FoodItem_readBack: "finiteFood f \<Longrightarrow> readBack (FoodItem_obj f) = FoodItem_obj f"
  using isFinite_readBack [of "calories f"] isFinite_readBack [of "protein f"]
    isFinite_readBack [of "carbs f"] isFinite_readBack [of "fat f"]
  by (simp add: finiteFood_def FoodItem_obj_def readBack_def)

lemma DietEntry_readBack: "finiteEntry e \<Longrightarrow> readBack (DietEntry_obj e) = DietEntry_obj e"
proof -
  assume fe: "finiteEntry e"
  then have "map (\<lambda>f. readBack (FoodItem_obj f)) (foods e) = map FoodItem_obj (foods e)"
    by (intro map_cong refl) (simp add: finiteEntry_def list_all_iff FoodItem_readBack)
  then show ?thesis
    using fe isFinite_readBack [of "totalCalories e"] isFinite_readBack [of "totalProtein e"]
    isFinite_readBack [of "totalCarbs e"] isFinite_readBack [of "totalFat e"]
    by (simp add: finiteEntry_def DietEntry_obj_def readBack_def comp_def)
qed

text \<open>
  C1 (as amended). On a device that holds no diet entries and whose provider rejects no
  call, appending any sequence of entries succeeds, and \<^verbatim>\<open>getDietEntries\<close> then returns as
  many values, in append order, each the entry as JSON reads it back; when every number of
  every entry is finite, these are exactly the entries appended.
\<close>

theorem diet_entries_round_trip:
  assumes "\<forall>n. \<not> faults st n" and "items st DIET_KEY = None"
  shows "fst (addDietEntries es st) = Inr ()
     \<and> fst (getDietEntries (snd (addDietEntries es st)))
         = Inr (Arr (map (\<lambda>e. readBack (DietEntry_obj e)) es))
     \<and> (list_all finiteEntry es \<longrightarrow>
          fst (getDietEntries (snd (addDietEntries es st))) = Inr (Arr (map DietEntry_obj es)))"
proof -
  have h: "holds st DIET_KEY []"
    using assms(2) by (simp add: holds_def)
  note r = addDietEntries_holds [OF assms(1) h, of es]
  have nr: "\<not> rejected (snd (addDietEntries es st))"
    using r assms(1) by (simp add: rejected_def)
  have h': "holds (snd (addDietEntries es st)) DIET_KEY
              (map (\<lambda>e. SerializeJSONProperty (DietEntry_obj e)) es)"
    using r by simp
  have g: "fst (getDietEntries (snd (addDietEntries es st)))
         = Inr (Arr (map (\<lambda>e. readBack (DietEntry_obj e)) es))"
    by (simp add: getDietEntries_def readEntries_holds [OF nr h'] readBack_def comp_def)
  have "map (\<lambda>e. readBack (DietEntry_obj e)) es = map DietEntry_obj es" if "list_all finiteEntry es"
    using that by (intro map_cong refl) (simp add: list_all_iff DietEntry_readBack)
  then show ?thesis
    using r g by simp
qed

theorem diet_entries_round_trip_witness:
  "fst (addDietEntries [meal1, meal2] freshDevice) = Inr ()
   \<and> fst (getDietEntries (snd (addDietEntries [meal1, meal2] freshDevice)))
       = Inr (Arr [DietEntry_obj meal1, DietEntry_obj meal2])"
proof -
  have f: "\<forall>n. \<not> faults freshDevice n" and i: "items freshDevice DIET_KEY = None"
    by (simp_all add: freshDevice_def)
  have l: "list_all finiteEntry [meal1, meal2]"
    by (simp add: finiteEntry_def finiteFood_def meal1_def meal2_def)
  note t = diet_entries_round_trip [OF f i, of "[meal1, meal2]"]
  have "fst (addDietEntries [meal1, meal2] freshDevice) = Inr ()"
    using t by blast
  moreover have "fst (getDietEntries (snd (addDietEntries [meal1, meal2] freshDevice)))
       = Inr (Arr (map DietEntry_obj [meal1, meal2]))"
    using t l by blast
  ultimately show ?thesis by simp
qed

text \<open>
  As stated, C1 fails for an entry with an infinite number, a value of the declared type
  \<^verbatim>\<open>number\<close>: \<^verbatim>\<open>JSON.stringify\<close> writes it as \<^verbatim>\<open>null\<close>.
\<close>

theorem diet_entries_round_trip_counterexample:
  "fst (addDietEntries [feast] freshDevice) = Inr ()
   \<and> fst (getDietEntries (snd (addDietEntries [feast] freshDevice))) \<noteq> Inr (Arr [DietEntry_obj feast])"
  by (simp add: run_defs feast_def DietEntry_obj_def FoodItem_obj_def)

text \<open>
  Remark. The premise of C1 that no call is rejected matters: a rejected read inside
  \<^verbatim>\<open>addDietEntry\<close> is swallowed by \<^verbatim>\<open>getDietEntries\<close>, the list is taken to be empty and
  the write that follows replaces what was stored by the new entry alone.
\<close>

lemma rejected_read_drops_entries:
  "fst (addDietEntry meal2 (usedDevice\<lparr>faults := (\<lambda>n. n = 4)\<rparr>)) = Inr ()
   \<and> items (snd (addDietEntry meal2 (usedDevice\<lparr>faults := (\<lambda>n. n = 4)\<rparr>))) DIET_KEY
       = Some (JSON_stringify [DietEntry_obj meal2])"
proof -
  have r: "rejected (usedDevice\<lparr>faults := (\<lambda>n. n = 4)\<rparr>)"
    by (simp add: rejected_def usedDevice_trace)
  have "fst (readEntries DIET_KEY ''Error getting diet entries:''
          (usedDevice\<lparr>faults := (\<lambda>n. n = 4)\<rparr>)) = Inr (Arr [])"
    using r by (simp add: readEntries_unreadable)
  then show ?thesis
    by (simp add: addDietEntry_def getDietEntries_def appendEntry_array Let_def rejected_def
        usedDevice_trace)
qed

lemma todaysEntries_items [simp]:
  "items (snd (todaysEntries (readEntries key m1) m2 p st)) = items st"
proof -
  obtain v st1 where r: "readEntries key m1 st = (Inr v, st1)"
    using readEntries_returns [of key m1 st] by (cases "readEntries key m1 st") auto
  have "items st1 = items st"
    using readEntries_items [of key m1 st] by (simp add: r)
  then show ?thesis
    by (cases "Array_filter (isToday p) v") (simp_all add: todaysEntries_def r console_error_def)
qed

lemma weekly_items [simp]: "items (snd (getWeeklyExerciseProgress p st)) = items st"
proof -
  obtain v st1 where r: "getExerciseEntries st = (Inr v, st1)"
    using readEntries_returns [of EXERCISE_KEY "''Error getting exercise entries:''" st]
    by (cases "getExerciseEntries st") (auto simp: getExerciseEntries_def)
  have "items st1 = items st"
    using readEntries_items [of EXERCISE_KEY "''Error getting exercise entries:''" st]
    by (simp add: r [unfolded getExerciseEntries_def])
  then show ?thesis
    by (cases "weeklyCounts p v") (simp_all add: getWeeklyExerciseProgress_def r console_error_def)
qed

lemma appendEntry_items:
  assumes "holds st key js"
  shows "items (snd (appendEntry (readEntries key m1) key m2 entry st)) = items st
     \<or> items (snd (appendEntry (readEntries key m1) key m2 entry st))
         = (items st)(key \<mapsto> Json (JArr (js @ [SerializeJSONProperty entry])))
     \<or> items (snd (appendEntry (readEntries key m1) key m2 entry st))
         = (items st)(key \<mapsto> Json (JArr [SerializeJSONProperty entry]))"
proof (cases "rejected st")
  case True
  then have r: "fst (readEntries key m1 st) = Inr (Arr [])"
    by (simp add: readEntries_unreadable)
  show ?thesis
    by (simp add: appendEntry_array [OF r] Let_def console_error_def JSON_stringify_def)
next
  case False
  then have r: "fst (readEntries key m1 st) = Inr (Arr (map InternalizeJSONProperty js))"
    using assms by (simp add: readEntries_holds)
  show ?thesis
    by (simp add: appendEntry_array [OF r] Let_def console_error_def JSON_stringify_def
        Serialize_Internalize comp_def)
qed

lemma appendEntry_keeps:
  assumes "holds st key (map (\<lambda>e. SerializeJSONProperty (obj e)) es)"
  shows "\<exists>es'. holds (snd (appendEntry (readEntries key m1) key m2 (obj e) st)) key
           (map (\<lambda>e. SerializeJSONProperty (obj e)) es')"
proof -
  define st' where "st' = snd (appendEntry (readEntries key m1) key m2 (obj e) st)"
  have "items st' key = items st key
     \<or> items st' key = Some (Json (JArr (map (\<lambda>e. SerializeJSONProperty (obj e)) (es @ [e]))))
     \<or> items st' key = Some (Json (JArr (map (\<lambda>e. SerializeJSONProperty (obj e)) [e])))"
    using appendEntry_items [OF assms, of m1 m2 "obj e"] by (auto simp: st'_def)
  then have "holds st' key (map (\<lambda>e. SerializeJSONProperty (obj e)) es)
     \<or> holds st' key (map (\<lambda>e. SerializeJSONProperty (obj e)) (es @ [e]))
     \<or> holds st' key (map (\<lambda>e. SerializeJSONProperty (obj e)) [e])"
    using assms unfolding holds_def by presburger
  then show ?thesis
    unfolding st'_def by blast
qed

lemma storesEntries_addDiet: "storesEntries st \<Longrightarrow> storesEntries (snd (addDietEntry e st))"
proof -
  assume s: "storesEntries st"
  have "items (snd (addDietEntry e st)) EXERCISE_KEY = items st EXERCISE_KEY"
    unfolding addDietEntry_def getDietEntries_def
    by (rule appendEntry_other_key) (simp add: keys_distinct [symmetric])
  then have o: "holds (snd (addDietEntry e st)) EXERCISE_KEY js = holds st EXERCISE_KEY js" for js
    by (simp add: holds_def)
  obtain ds where d: "holds st DIET_KEY (map (\<lambda>e. SerializeJSONProperty (DietEntry_obj e)) ds)"
    using s by (auto simp: storesEntries_def)
  have "\<exists>ds'. holds (snd (addDietEntry e st)) DIET_KEY
           (map (\<lambda>e. SerializeJSONProperty (DietEntry_obj e)) ds')"
    unfolding addDietEntry_def getDietEntries_def by (rule appendEntry_keeps [OF d])
  then show ?thesis
    using s by (simp add: storesEntries_def o)
qed

lemma storesEntries_addExercise:
  "storesEntries st \<Longrightarrow> storesEntries (snd (addExerciseEntry e st))"
proof -
  assume s: "storesEntries st"
  have "items (snd (addExerciseEntry e st)) DIET_KEY = items st DIET_KEY"
    unfolding addExerciseEntry_def getExerciseEntries_def
    by (rule appendEntry_other_key) (simp add: keys_distinct)
  then have o: "holds (snd (addExerciseEntry e st)) DIET_KEY js = holds st DIET_KEY js" for js
    by (simp add: holds_def)
  obtain xs where x: "holds st EXERCISE_KEY (map (\<lambda>e. SerializeJSONProperty (ExerciseEntry_obj e)) xs)"
    using s by (auto simp: storesEntries_def)
  have "\<exists>xs'. holds (snd (addExerciseEntry e st)) EXERCISE_KEY
           (map (\<lambda>e. SerializeJSONProperty (ExerciseEntry_obj e)) xs')"
    unfolding addExerciseEntry_def getExerciseEntries_def by (rule appendEntry_keeps [OF x])
  then show ?thesis
    using s by (simp add: storesEntries_def o)
qed

lemma storesEntries_clear: "storesEntries st \<Longrightarrow> storesEntries (snd (clearHealthData st))"
proof -
  assume s: "storesEntries st"
  show ?thesis
  proof (cases "rejected st")
    case True
    then have "items (snd (clearHealthData st)) = items st"
      by (simp add: clearHealthData_cases Let_def console_error_def)
    then show ?thesis using s by (simp add: storesEntries_def holds_def)
  next
    case False
    then have "items (snd (clearHealthData st)) DIET_KEY = None"
      "items (snd (clearHealthData st)) EXERCISE_KEY = None"
      by (simp_all add: clearHealthData_cases Let_def)
    then show ?thesis by (simp add: storesEntries_def holds_def)
  qed
qed

lemma storesEntries_same: "items st' = items st \<Longrightarrow> storesEntries st \<Longrightarrow> storesEntries st'"
  by (simp add: storesEntries_def holds_def)

lemma saveMeal_state:
  "snd (saveMeal now ui st) = st
   \<or> (\<exists>e. items (snd (saveMeal now ui st)) = items (snd (addDietEntry e st)))"
proof (cases "length (foodItems ui) = 0")
  case True
  then show ?thesis by (simp add: saveMeal_def)
next
  case False
  define e where "e = \<lparr>diet_id = Date_now_toString now, diet_date = toISOString now,
     mealType = selectedMealType ui, foods = foodItems ui,
     totalCalories = sum_calories (calculateTotals (foodItems ui)),
     totalProtein = sum_protein (calculateTotals (foodItems ui)),
     totalCarbs = sum_carbs (calculateTotals (foodItems ui)),
     totalFat = sum_fat (calculateTotals (foodItems ui))\<rparr>"
  have "items (snd (saveMeal now ui st)) = items (snd (addDietEntry e st))"
    using False
    by (simp add: saveMeal_def Let_def console_error_def e_def [symmetric]
        split: prod.splits sum.splits)
  then show ?thesis by blast
qed

lemma saveWorkout_state:
  "snd (saveWorkout now ui st) = st
   \<or> (\<exists>e. items (snd (saveWorkout now ui st)) = items (snd (addExerciseEntry e st)))"
proof -
  define e where "e = \<lparr>exercise_id = Date_now_toString now, exercise_date = toISOString now,
     exercise_type = selectedType ui, exercises = workout_exercises ui,
     duration = parseInt (workoutDuration ui),
     caloriesBurned = Math_round (js_mul (parseInt (workoutDuration ui)) (Finite 5))\<rparr>"
  have "snd (saveWorkout now ui st) = st
     \<or> items (snd (saveWorkout now ui st)) = items (snd (addExerciseEntry e st))"
    by (simp add: saveWorkout_def Let_def console_error_def e_def [symmetric]
        split: prod.splits sum.splits)
  then show ?thesis by blast
qed

lemma storesEntries_perform: "storesEntries st \<Longrightarrow> storesEntries (perform a st)"
proof (cases a)
  case (AddDietEntry e)
  assume "storesEntries st"
  then show ?thesis by (simp add: AddDietEntry storesEntries_addDiet)
next
  case (AddExerciseEntry e)
  assume "storesEntries st"
  then show ?thesis by (simp add: AddExerciseEntry storesEntries_addExercise)
next
  case ClearHealthData
  assume "storesEntries st"
  then show ?thesis by (simp add: ClearHealthData storesEntries_clear)
next
  case GetDietEntries
  assume "storesEntries st"
  then show ?thesis
    by (auto simp: GetDietEntries getDietEntries_def intro: storesEntries_same [rotated])
next
  case GetExerciseEntries
  assume "storesEntries st"
  then show ?thesis
    by (auto simp: GetExerciseEntries getExerciseEntries_def intro: storesEntries_same [rotated])
next
  case (GetTodaysDietEntries p)
  assume "storesEntries st"
  then show ?thesis
    by (auto simp: GetTodaysDietEntries getTodaysDietEntries_def getDietEntries_def
        intro: storesEntries_same [rotated])
next
  case (GetTodaysExerciseEntries p)
  assume "storesEntries st"
  then show ?thesis
    by (auto simp: GetTodaysExerciseEntries getTodaysExerciseEntries_def getExerciseEntries_def
        intro: storesEntries_same [rotated])
next
  case (GetWeeklyExerciseProgress p)
  assume "storesEntries st"
  then show ?thesis
    by (auto simp: GetWeeklyExerciseProgress intro: storesEntries_same [rotated])
next
  case (SaveMeal now ui)
  assume s: "storesEntries st"
  from saveMeal_state [of now ui st] show ?thesis
  proof
    assume "snd (saveMeal now ui st) = st"
    then show ?thesis using s by (simp add: SaveMeal)
  next
    assume "\<exists>e. items (snd (saveMeal now ui st)) = items (snd (addDietEntry e st))"
    then obtain e where "items (snd (saveMeal now ui st)) = items (snd (addDietEntry e st))" ..
    then show ?thesis
      using storesEntries_addDiet [OF s, of e] by (simp add: SaveMeal storesEntries_same)
  qed
next
  case (SaveWorkout now ui)
  assume s: "storesEntries st"
  from saveWorkout_state [of now ui st] show ?thesis
  proof
    assume "snd (saveWorkout now ui st) = st"
    then show ?thesis using s by (simp add: SaveWorkout)
  next
    assume "\<exists>e. items (snd (saveWorkout now ui st)) = items (snd (addExerciseEntry e st))"
    then obtain e where "items (snd (saveWorkout now ui st)) = items (snd (addExerciseEntry e st))" ..
    then show ?thesis
      using storesEntries_addExercise [OF s, of e] by (simp add: SaveWorkout storesEntries_same)
  qed
qed

lemma storesEntries_fold: "storesEntries st \<Longrightarrow> storesEntries (fold perform acts st)"
  by (induction acts arbitrary: st) (simp_all add: storesEntries_perform)

lemma storesEntries_run: "storesEntries (run acts (installed fs))"
proof -
  have "storesEntries (installed fs)"
    by (simp add: storesEntries_def holds_def installed_def)
  then show ?thesis
    unfolding run_def by (rule storesEntries_fold)
qed

lemma storesEntries_reads:
  assumes "storesEntries st"
  shows "\<exists>ds. fst (getDietEntries st) = Inr (Arr (map storedDiet ds))"
    and "\<exists>xs. fst (getExerciseEntries st) = Inr (Arr (map storedExercise xs))"
proof -
  have r: "\<exists>es. fst (readEntries key msg st) = Inr (Arr (map (\<lambda>e. readBack (obj e)) es))"
    if h: "holds st key (map (\<lambda>e. SerializeJSONProperty (obj e)) es)" for key msg obj
      and es :: "'a list"
  proof (cases "rejected st")
    case True
    then have "fst (readEntries key msg st) = Inr (Arr (map (\<lambda>e. readBack (obj e)) []))"
      by (simp add: readEntries_unreadable)
    then show ?thesis ..
  next
    case False
    then have "fst (readEntries key msg st) = Inr (Arr (map (\<lambda>e. readBack (obj e)) es))"
      using readEntries_holds [OF False h] by (simp add: comp_def readBack_def)
    then show ?thesis ..
  qed
  from assms obtain ds xs
    where d: "holds st DIET_KEY (map (\<lambda>e. SerializeJSONProperty (DietEntry_obj e)) ds)"
      and x: "holds st EXERCISE_KEY (map (\<lambda>e. SerializeJSONProperty (ExerciseEntry_obj e)) xs)"
    by (auto simp: storesEntries_def)
  show "\<exists>ds. fst (getDietEntries st) = Inr (Arr (map storedDiet ds))"
    using r [OF d] by (simp add: getDietEntries_def storedDiet_def [abs_def])
  show "\<exists>xs. fst (getExerciseEntries st) = Inr (Arr (map storedExercise xs))"
    using r [OF x] by (simp add: getExerciseEntries_def storedExercise_def [abs_def])
qed

lemma usedDevice_run:
  "usedDevice = run [AddDietEntry meal1, AddExerciseEntry workout1] (installed (\<lambda>n. False))"
  by (simp add: usedDevice_def run_def installed_def freshDevice_def)

lemma usedDevice_faulty_run:
  "usedDevice\<lparr>faults := (\<lambda>n. n = 5)\<rparr>
     = run [AddDietEntry meal1, AddExerciseEntry workout1] (installed (\<lambda>n. n = 5))"
  by (simp add: usedDevice_def run_def installed_def run_defs)

text \<open>
  C5. In every state the program can be in, \<^verbatim>\<open>addDietEntry\<close> and \<^verbatim>\<open>addExerciseEntry\<close>
  make one read and one write (no retry), throw the provider's error exactly when the
  provider rejects that write, and return normally otherwise; \<^verbatim>\<open>clearHealthData\<close> makes
  one \<^verbatim>\<open>multiRemove\<close> call, throws exactly when the provider rejects it, and returns
  normally otherwise.
\<close>

theorem writes_fail_closed:
  assumes "st = run acts (installed fs)"
  shows "fst (addDietEntry d st)
        = (if faults st (Suc (length (trace st))) then Inl ProviderError else Inr ())
   \<and> (\<exists>b. trace (snd (addDietEntry d st)) = trace st @ [GetItem DIET_KEY, SetItem DIET_KEY b])
   \<and> fst (addExerciseEntry x st)
        = (if faults st (Suc (length (trace st))) then Inl ProviderError else Inr ())
   \<and> (\<exists>b. trace (snd (addExerciseEntry x st))
             = trace st @ [GetItem EXERCISE_KEY, SetItem EXERCISE_KEY b])
   \<and> fst (clearHealthData st) = (if rejected st then Inl ProviderError else Inr ())
   \<and> trace (snd (clearHealthData st)) = trace st @ [MultiRemove [DIET_KEY, EXERCISE_KEY]]"
proof -
  have s: "storesEntries st"
    unfolding assms by (rule storesEntries_run)
  have a: "fst (appendEntry (readEntries key m1) key m2 entry st)
        = (if faults st (Suc (length (trace st))) then Inl ProviderError else Inr ())
      \<and> (\<exists>b. trace (snd (appendEntry (readEntries key m1) key m2 entry st))
                = trace st @ [GetItem key, SetItem key b])"
    if h: "\<exists>vs. fst (readEntries key m1 st) = Inr (Arr vs)" for key m1 m2 entry
  proof -
    obtain vs where r: "fst (readEntries key m1 st) = Inr (Arr vs)"
      using h by blast
    show ?thesis
      by (simp add: appendEntry_array [OF r] Let_def rejected_def console_error_def)
  qed
  have c: "fst (clearHealthData st) = (if rejected st then Inl ProviderError else Inr ())
     \<and> trace (snd (clearHealthData st)) = trace st @ [MultiRemove [DIET_KEY, EXERCISE_KEY]]"
    by (simp add: clearHealthData_cases Let_def console_error_def)
  have d: "\<exists>vs. fst (readEntries DIET_KEY ''Error getting diet entries:'' st) = Inr (Arr vs)"
    using storesEntries_reads(1) [OF s] unfolding getDietEntries_def by blast
  have x: "\<exists>vs. fst (readEntries EXERCISE_KEY ''Error getting exercise entries:'' st) = Inr (Arr vs)"
    using storesEntries_reads(2) [OF s] unfolding getExerciseEntries_def by blast
  show ?thesis
    using a [OF d] a [OF x] c
    by (simp add: addDietEntry_def addExerciseEntry_def getDietEntries_def getExerciseEntries_def)
qed

theorem writes_fail_closed_witness:
  "usedDevice = run [AddDietEntry meal1, AddExerciseEntry workout1] (installed (\<lambda>n. False))
   \<and> fst (addDietEntry meal2 usedDevice) = Inr ()
   \<and> fst (addDietEntry meal2
        (run [AddDietEntry meal1, AddExerciseEntry workout1] (installed (\<lambda>n. n = 5))))
       = Inl ProviderError
   \<and> fst (clearHealthData usedDevice) = Inr ()"
  using writes_fail_closed [OF usedDevice_run, of meal2 workout1]
    writes_fail_closed [OF usedDevice_faulty_run, of meal2 workout1]
  by (simp add: usedDevice_trace usedDevice_items usedDevice_run [symmetric]
      usedDevice_faulty_run [symmetric] rejected_def)

section \<open>Properties of the derived views\<close>

lemma todaysEntries_returns: "\<exists>v. fst (todaysEntries (readEntries key m1) m2 p st) = Inr v"
proof -
  obtain v st1 where r: "readEntries key m1 st = (Inr v, st1)"
    using readEntries_returns [of key m1 st] by (cases "readEntries key m1 st") auto
  show ?thesis
    by (cases "Array_filter (isToday p) v") (simp_all add: todaysEntries_def r)
qed

lemma todaysEntries_empty:
  "fst (readEntries key m1 st) = Inr (Arr []) \<Longrightarrow> fst (todaysEntries (readEntries key m1) m2 p st) = Inr []"
  by (cases "readEntries key m1 st") (simp add: todaysEntries_def)

lemma weeklyCounts_empty: "weeklyCounts p (Arr []) = Inr zeroProgress"
  by (simp add: weeklyCounts_def countType_def zeroProgress_def)

lemma weekly_returns: "\<exists>v. fst (getWeeklyExerciseProgress p st) = Inr v"
proof -
  obtain v st1 where r: "readEntries EXERCISE_KEY ''Error getting exercise entries:'' st = (Inr v, st1)"
    using readEntries_returns [of EXERCISE_KEY "''Error getting exercise entries:''" st]
    by (cases "readEntries EXERCISE_KEY ''Error getting exercise entries:'' st") auto
  show ?thesis
    by (cases "weeklyCounts p v")
       (simp_all add: getWeeklyExerciseProgress_def getExerciseEntries_def r)
qed

lemma weekly_empty:
  "fst (getExerciseEntries st) = Inr (Arr []) \<Longrightarrow> fst (getWeeklyExerciseProgress p st) = Inr zeroProgress"
  by (cases "getExerciseEntries st") (simp add: getWeeklyExerciseProgress_def weeklyCounts_empty)

text \<open>
  C4. Every read fails open. When the provider rejects the read, or the key is absent, or
  what it holds is empty or not JSON, \<^verbatim>\<open>getDietEntries\<close>, \<^verbatim>\<open>getExerciseEntries\<close>,
  \<^verbatim>\<open>getTodaysDietEntries\<close> and \<^verbatim>\<open>getTodaysExerciseEntries\<close> return the empty array and
  \<^verbatim>\<open>getWeeklyExerciseProgress\<close> returns four zeros; and none of the five ever throws.
\<close>

theorem reads_fail_open:
  "(rejected st \<or> unreadable (items st DIET_KEY) \<longrightarrow>
      fst (getDietEntries st) = Inr (Arr []) \<and> fst (getTodaysDietEntries p st) = Inr [])
   \<and> (rejected st \<or> unreadable (items st EXERCISE_KEY) \<longrightarrow>
      fst (getExerciseEntries st) = Inr (Arr []) \<and> fst (getTodaysExerciseEntries p st) = Inr []
      \<and> fst (getWeeklyExerciseProgress p st) = Inr zeroProgress)
   \<and> \<not> isl (fst (getDietEntries st)) \<and> \<not> isl (fst (getExerciseEntries st))
   \<and> \<not> isl (fst (getTodaysDietEntries p st)) \<and> \<not> isl (fst (getTodaysExerciseEntries p st))
   \<and> \<not> isl (fst (getWeeklyExerciseProgress p st))"
proof -
  have a: "fst (readEntries key m1 st) = Inr (Arr [])
      \<and> fst (todaysEntries (readEntries key m1) m2 p st) = Inr []"
    if h: "rejected st \<or> unreadable (items st key)" for key m1 m2
    using readEntries_unreadable [OF h] by (simp add: todaysEntries_empty)
  have w: "fst (getWeeklyExerciseProgress p st) = Inr zeroProgress"
    if h: "rejected st \<or> unreadable (items st EXERCISE_KEY)"
    using readEntries_unreadable [OF h] by (simp add: weekly_empty getExerciseEntries_def)
  have n: "\<not> isl (fst (readEntries key m1 st))"
    "\<not> isl (fst (todaysEntries (readEntries key m1) m2 p st))" for key m1 m2
    using readEntries_returns [of key m1 st] todaysEntries_returns [of key m1 m2 p st]
    by auto
  have nw: "\<not> isl (fst (getWeeklyExerciseProgress p st))"
    using weekly_returns [of p st] by auto
  show ?thesis
    using a [of DIET_KEY] a [of EXERCISE_KEY] w n nw
    by (simp add: getDietEntries_def getExerciseEntries_def getTodaysDietEntries_def
        getTodaysExerciseEntries_def)
qed

theorem reads_fail_open_witness:
  "unreadable (items corruptDevice DIET_KEY) \<and> unreadable (items corruptDevice EXERCISE_KEY)
   \<and> rejected (usedDevice\<lparr>faults := (\<lambda>n. True)\<rparr>)
   \<and> fst (getDietEntries corruptDevice) = Inr (Arr [])
   \<and> fst (getTodaysDietEntries wednesday corruptDevice) = Inr []
   \<and> fst (getWeeklyExerciseProgress wednesday corruptDevice) = Inr zeroProgress
   \<and> fst (getDietEntries (usedDevice\<lparr>faults := (\<lambda>n. True)\<rparr>)) = Inr (Arr [])
   \<and> fst (getWeeklyExerciseProgress wednesday (usedDevice\<lparr>faults := (\<lambda>n. True)\<rparr>))
       = Inr zeroProgress"
proof -
  have c: "unreadable (items corruptDevice DIET_KEY)" "unreadable (items corruptDevice EXERCISE_KEY)"
    by (simp_all add: corruptDevice_def freshDevice_def keys_distinct [symmetric])
  have r: "rejected (usedDevice\<lparr>faults := (\<lambda>n. True)\<rparr>)"
    by (simp add: rejected_def)
  show ?thesis
    using reads_fail_open [of corruptDevice wednesday]
      reads_fail_open [of "usedDevice\<lparr>faults := (\<lambda>n. True)\<rparr>" wednesday] c r
    by simp
qed

text \<open>
  The calendar. \<open>YearFromTime\<close> is the year of ECMA-262, the one that starts on or before
  the day and whose successor starts after it, and a year has \<open>DaysInYear\<close> days. A date is
  determined by its day number: \<open>MakeDay\<close> undoes \<open>YearFromTime\<close>, \<open>MonthFromTime\<close> and
  \<open>DateFromTime\<close>, also when the day of the month is moved out of the month.
\<close>

lemma DayFromYear_bounds:
  "146097 * (y - 1970) - 506 \<le> 400 * DayFromYear y"
  "400 * DayFromYear y \<le> 146097 * (y - 1970) + 589"
proof -
  define a where "a = (y - 1969) mod 4"
  define b where "b = (y - 1901) mod 100"
  define c where "c = (y - 1601) mod 400"
  have r: "0 \<le> a" "a < 4" "0 \<le> b" "b < 100" "0 \<le> c" "c < 400"
    by (simp_all add: a_def b_def c_def)
  have d: "4 * ((y - 1969) div 4) = y - 1969 - a" "100 * ((y - 1901) div 100) = y - 1901 - b"
    "400 * ((y - 1601) div 400) = y - 1601 - c"
    unfolding a_def b_def c_def by (simp_all add: minus_mod_eq_mult_div [symmetric])
  have "400 * DayFromYear y = 146000 * (y - 1970) + 100 * (4 * ((y - 1969) div 4))
      - 4 * (100 * ((y - 1901) div 100)) + 400 * ((y - 1601) div 400)"
    by (simp add: DayFromYear_def algebra_simps)
  then have e: "400 * DayFromYear y = 146097 * (y - 1970) + 193 - 100 * a + 4 * b - c"
    unfolding d by (simp add: algebra_simps)
  show "146097 * (y - 1970) - 506 \<le> 400 * DayFromYear y"
    using e r by linarith
  show "400 * DayFromYear y \<le> 146097 * (y - 1970) + 589"
    using e r by linarith
qed

lemma YearFromTime_spec:
  "DayFromYear (YearFromTime t) \<le> Day t \<and> Day t < DayFromYear (YearFromTime t + 1)"
proof -
  define d where "d = Day t"
  define e where "e = (d * 400) div 146097"
  have m: "146097 * e \<le> 400 * d" "400 * d < 146097 * e + 146097"
  proof -
    have "146097 * e = d * 400 - (d * 400) mod 146097"
      unfolding e_def by (simp add: minus_mod_eq_mult_div [symmetric])
    moreover have "0 \<le> (d * 400) mod 146097" "(d * 400) mod 146097 < 146097"
      by simp_all
    ultimately show "146097 * e \<le> 400 * d" "400 * d < 146097 * e + 146097"
      by linarith+
  qed
  have lo: "DayFromYear (1970 + e - 1) \<le> d"
    using DayFromYear_bounds(2) [of "1970 + e - 1"] m by simp
  have hi: "d < DayFromYear (1970 + e + 1 + 1)"
    using DayFromYear_bounds(1) [of "1970 + e + 1 + 1"] m by simp
  show ?thesis
    using lo hi
    by (auto simp: YearFromTime_def Let_def d_def [symmetric] e_def [symmetric])
qed

lemma div_step_gen:
  fixes x k :: int
  assumes "0 < k"
  shows "(x + 1) div k - x div k = (if (x + 1) mod k = 0 then 1 else 0)"
proof -
  define q where "q = x div k"
  define r where "r = x mod k"
  have x: "x = k * q + r" and r: "0 \<le> r" "r < k"
    using assms by (simp_all add: q_def r_def)
  show ?thesis
  proof (cases "r + 1 = k")
    case True
    then have "x + 1 = k * (q + 1)" using x by (simp add: algebra_simps)
    then have "(x + 1) div k = q + 1" "(x + 1) mod k = 0"
      using assms by simp_all
    then show ?thesis by (simp add: q_def)
  next
    case False
    then have lt: "r + 1 < k" using r by simp
    have e: "x + 1 = k * q + (r + 1)" using x by simp
    have "(x + 1) div k = q"
      using e r lt by (intro int_div_pos_eq [of _ _ _ "r + 1"]) simp_all
    moreover have "(x + 1) mod k = r + 1"
      using e r lt by (intro int_mod_pos_eq [of _ _ q]) simp_all
    ultimately have "(x + 1) div k = q" "(x + 1) mod k = r + 1" by simp_all
    then show ?thesis using r by (simp add: q_def)
  qed
qed

lemma leap_mods:
  "((y - 1969 + 1) mod 4 = 0) = (y mod 4 = 0)"
  "((y - 1901 + 1) mod 100 = 0) = (y mod 100 = 0)"
  "((y - 1601 + 1) mod 400 = 0) = (y mod 400 = 0)"
  for y :: int
proof -
  have "y - 1969 + 1 = y + (- 492) * 4" "y - 1901 + 1 = y + (- 19) * 100"
    "y - 1601 + 1 = y + (- 4) * 400" by simp_all
  then show "((y - 1969 + 1) mod 4 = 0) = (y mod 4 = 0)"
    "((y - 1901 + 1) mod 100 = 0) = (y mod 100 = 0)"
    "((y - 1601 + 1) mod 400 = 0) = (y mod 400 = 0)"
    by (simp_all only: mod_mult_self1)
qed

lemma leap_dvd:
  "y mod 4 \<noteq> 0 \<Longrightarrow> y mod 100 \<noteq> 0" "y mod 100 \<noteq> 0 \<Longrightarrow> y mod 400 \<noteq> 0"
  for y :: int
proof -
  have "(4::int) dvd 100" "(100::int) dvd 400" by simp_all
  then show "y mod 4 \<noteq> 0 \<Longrightarrow> y mod 100 \<noteq> 0" "y mod 100 \<noteq> 0 \<Longrightarrow> y mod 400 \<noteq> 0"
    by (metis dvd_trans mod_0_imp_dvd dvd_imp_mod_0)+
qed

lemma DaysInYear_DayFromYear: "DayFromYear (y + 1) - DayFromYear y = DaysInYear y"
proof -
  have "DayFromYear (y + 1) - DayFromYear y
      = 365 + ((y - 1969 + 1) div 4 - (y - 1969) div 4)
        - ((y - 1901 + 1) div 100 - (y - 1901) div 100)
        + ((y - 1601 + 1) div 400 - (y - 1601) div 400)"
    by (simp add: DayFromYear_def algebra_simps)
  also have "\<dots> = 365 + (if y mod 4 = 0 then 1 else 0) - (if y mod 100 = 0 then 1 else 0)
        + (if y mod 400 = 0 then 1 else 0)"
    by (simp only: div_step_gen [of 4] div_step_gen [of 100] div_step_gen [of 400]
        leap_mods zero_less_numeral)
  also have "\<dots> = DaysInYear y"
    using leap_dvd [of y] by (auto simp: DaysInYear_def)
  finally show ?thesis .
qed

lemma MonthFromTime_range: "0 \<le> MonthFromTime t \<and> MonthFromTime t < 12"
  by (simp add: MonthFromTime_def Let_def)

lemma MakeDay_DateFromTime:
  "MakeDay (YearFromTime t) (MonthFromTime t) (DateFromTime t + k) = Day t + k"
proof -
  have "MonthFromTime t div 12 = 0" "MonthFromTime t mod 12 = MonthFromTime t"
    using MonthFromTime_range [of t] by simp_all
  then show ?thesis
    by (simp add: MakeDay_def DateFromTime_def DayWithinYear_def InLeapYear_def Let_def)
qed

lemma same_Day:
  assumes "Day a = Day b"
  shows "YearFromTime a = YearFromTime b" "MonthFromTime a = MonthFromTime b"
    "DateFromTime a = DateFromTime b" "WeekDay a = WeekDay b"
proof -
  show y: "YearFromTime a = YearFromTime b"
    using assms by (simp add: YearFromTime_def)
  then have l: "InLeapYear a = InLeapYear b" and w: "DayWithinYear a = DayWithinYear b"
    using assms by (simp_all add: InLeapYear_def DayWithinYear_def)
  then show m: "MonthFromTime a = MonthFromTime b"
    by (simp add: MonthFromTime_def)
  show "DateFromTime a = DateFromTime b"
    using l w m by (simp add: DateFromTime_def)
  show "WeekDay a = WeekDay b"
    using assms by (simp add: WeekDay_def)
qed

lemma Day_from_fields:
  assumes "YearFromTime a = YearFromTime b" "MonthFromTime a = MonthFromTime b"
    "DateFromTime a = DateFromTime b"
  shows "Day a = Day b"
  using MakeDay_DateFromTime [of a 0] MakeDay_DateFromTime [of b 0] assms by simp

lemma toDateString_eq:
  "(toDateString p d = toDateString p (Some (clock p))) = onLocalDay p d"
proof (cases d)
  case None
  then show ?thesis by (simp add: toDateString_def onLocalDay_def Let_def)
next
  case (Some t)
  show ?thesis
    using same_Day [of "LocalTime p t" "LocalTime p (clock p)"]
      Day_from_fields [of "LocalTime p t" "LocalTime p (clock p)"]
    by (auto simp: Some toDateString_def onLocalDay_def Let_def)
qed

lemma filterM_map:
  "(\<And>e. f (h e) = Inr (P e)) \<Longrightarrow> filterM f (map h es) = Inr (map h (filter P es))"
  by (induction es) simp_all


lemma stored_fields:
  "GetV (storedDiet d) ''date'' = Inr (Str (diet_date d))"
  "GetV (storedExercise x) ''date'' = Inr (Str (exercise_date x))"
  "GetV (storedExercise x) ''type'' = Inr (Str (exercise_type x))"
  by (simp_all add: storedDiet_def storedExercise_def readBack_def DietEntry_obj_def
      ExerciseEntry_obj_def)

lemma isToday_stored:
  "isToday p (storedDiet d) = Inr (onLocalDay p (Date_parse p (diet_date d)))"
  "isToday p (storedExercise x) = Inr (onLocalDay p (Date_parse p (exercise_date x)))"
  by (simp_all add: isToday_def stored_fields toDateString_eq)

lemma todaysEntries_stored:
  assumes "fst (readEntries key m1 st) = Inr (Arr (map h es))"
    and "\<And>e. isToday p (h e) = Inr (P e)"
  shows "fst (todaysEntries (readEntries key m1) m2 p st) = Inr (map h (filter P es))"
proof -
  obtain st1 where r: "readEntries key m1 st = (Inr (Arr (map h es)), st1)"
    using assms(1) by (cases "readEntries key m1 st") simp
  show ?thesis
    by (simp add: todaysEntries_def r filterM_map [of "isToday p" h P, OF assms(2)])
qed


lemma day_before_excluded:
  assumes "LocalTZA_utc p (clock p - msPerDay) = LocalTZA_utc p (clock p)"
  shows "\<not> onLocalDay p (Some (clock p - msPerDay))"
proof -
  have "LocalTime p (clock p - msPerDay) = LocalTime p (clock p) - msPerDay"
    using assms by (simp add: LocalTime_def)
  moreover have "Day (t - msPerDay) = Day t - 1" for t
    by (simp add: Day_def msPerDay_def)
  ultimately show ?thesis
    by (simp add: onLocalDay_def)
qed

text \<open>
  C3 (as amended). In every state the program can be in, each collection reads as a list
  of entries, and \<^verbatim>\<open>getTodaysDietEntries\<close> and \<^verbatim>\<open>getTodaysExerciseEntries\<close> return
  exactly those of them whose date lies on the local calendar day of the clock, in the
  stored order. An entry dated on that local day is kept; an entry dated 24 hours before
  the clock is left out when the zone's offset from UTC is the same at both instants.
\<close>

theorem todays_entries:
  assumes "st = run acts (installed fs)"
  shows "(\<exists>ds. fst (getDietEntries st) = Inr (Arr (map storedDiet ds)))
   \<and> (fst (getDietEntries st) = Inr (Arr (map storedDiet ds)) \<longrightarrow>
        fst (getTodaysDietEntries p st)
          = Inr (map storedDiet (filter (\<lambda>e. onLocalDay p (Date_parse p (diet_date e))) ds)))
   \<and> (\<exists>xs. fst (getExerciseEntries st) = Inr (Arr (map storedExercise xs)))
   \<and> (fst (getExerciseEntries st) = Inr (Arr (map storedExercise xs)) \<longrightarrow>
        fst (getTodaysExerciseEntries p st)
          = Inr (map storedExercise
                  (filter (\<lambda>e. onLocalDay p (Date_parse p (exercise_date e))) xs)))
   \<and> (Day (LocalTime p t) = Day (LocalTime p (clock p)) \<longrightarrow> onLocalDay p (Some t))
   \<and> (LocalTZA_utc p (clock p - msPerDay) = LocalTZA_utc p (clock p)
        \<longrightarrow> \<not> onLocalDay p (Some (clock p - msPerDay)))"
proof -
  have s: "storesEntries st"
    unfolding assms by (rule storesEntries_run)
  have d: "fst (getTodaysDietEntries p st)
          = Inr (map storedDiet (filter (\<lambda>e. onLocalDay p (Date_parse p (diet_date e))) ds))"
    if "fst (getDietEntries st) = Inr (Arr (map storedDiet ds))"
    using that unfolding getTodaysDietEntries_def getDietEntries_def
    by (rule todaysEntries_stored) (rule isToday_stored)
  have x: "fst (getTodaysExerciseEntries p st)
          = Inr (map storedExercise
                  (filter (\<lambda>e. onLocalDay p (Date_parse p (exercise_date e))) xs))"
    if "fst (getExerciseEntries st) = Inr (Arr (map storedExercise xs))"
    using that unfolding getTodaysExerciseEntries_def getExerciseEntries_def
    by (rule todaysEntries_stored) (rule isToday_stored)
  have o: "onLocalDay p (Some t)" if "Day (LocalTime p t) = Day (LocalTime p (clock p))"
    using that by (simp add: onLocalDay_def)
  show ?thesis
    using storesEntries_reads [OF s] d x o day_before_excluded [of p] by blast
qed

lemma usedDevice_reads:
  "fst (getDietEntries usedDevice) = Inr (Arr (map storedDiet [meal1]))"
  "fst (getExerciseEntries usedDevice) = Inr (Arr (map storedExercise [workout1]))"
  by (simp_all add: getDietEntries_def getExerciseEntries_def readEntries_cases rejected_def
      usedDevice_items JSON_stringify_def readBack_def storedDiet_def storedExercise_def)

theorem todays_entries_witness:
  "usedDevice = run [AddDietEntry meal1, AddExerciseEntry workout1] (installed (\<lambda>n. False))
   \<and> fst (getDietEntries usedDevice) = Inr (Arr (map storedDiet [meal1]))
   \<and> fst (getExerciseEntries usedDevice) = Inr (Arr (map storedExercise [workout1]))
   \<and> Day (LocalTime (utcPlatform 1793511000000) 1793507400000)
       = Day (LocalTime (utcPlatform 1793511000000) (clock (utcPlatform 1793511000000)))
   \<and> LocalTZA_utc (utcPlatform 1793511000000) (clock (utcPlatform 1793511000000) - msPerDay)
       = LocalTZA_utc (utcPlatform 1793511000000) (clock (utcPlatform 1793511000000))
   \<and> \<not> onLocalDay (utcPlatform 1793511000000) (Some (clock (utcPlatform 1793511000000) - msPerDay))
   \<and> fst (getTodaysDietEntries (utcPlatform 1793511000000) usedDevice) = Inr [storedDiet meal1]
   \<and> fst (getTodaysDietEntries (utcPlatform 1793597400000) usedDevice) = Inr []"
proof -
  have z: "LocalTZA_utc (utcPlatform c) a = LocalTZA_utc (utcPlatform c) b" for a b c
    by (simp add: utcPlatform_def zonePlatform_def)
  have d: "Day (LocalTime (utcPlatform 1793511000000) 1793507400000)
       = Day (LocalTime (utcPlatform 1793511000000) (clock (utcPlatform 1793511000000)))"
    by (simp add: utcPlatform_def zonePlatform_def LocalTime_def Day_def msPerDay_def)
  have p: "Date_parse (utcPlatform c) (diet_date meal1) = Some 1793507400000" for c
    by (simp add: utcPlatform_def zonePlatform_def sampleDates_def meal1_def)
  have n: "\<not> onLocalDay (utcPlatform 1793597400000) (Some 1793507400000)"
    by (simp add: onLocalDay_def utcPlatform_def zonePlatform_def LocalTime_def Day_def
        msPerDay_def)
  show ?thesis
    using todays_entries [OF usedDevice_run, of "[meal1]" "utcPlatform 1793511000000"
        "[workout1]" 1793507400000]
      todays_entries [OF usedDevice_run, of "[meal1]" "utcPlatform 1793597400000"
        "[workout1]" 1793507400000] usedDevice_reads z d n
    by (simp add: p usedDevice_run [symmetric])
qed

text \<open>
  As stated, C3 fails where a clock change makes the local day longer than 24 hours: in
  New York at 23:30 on 1 November 2026, the meal dated 24 hours earlier (00:30 of the same
  local day) is returned.
\<close>

theorem todays_entries_counterexample:
  "fst (getDietEntries usedDevice) = Inr (Arr [storedDiet meal1])
   \<and> Date_parse (newYorkPlatform 1793593800000) (diet_date meal1)
       = Some (clock (newYorkPlatform 1793593800000) - msPerDay)
   \<and> fst (getTodaysDietEntries (newYorkPlatform 1793593800000) usedDevice)
       = Inr [storedDiet meal1]"
proof -
  have p: "Date_parse (newYorkPlatform 1793593800000) (diet_date meal1) = Some 1793507400000"
    by (simp add: newYorkPlatform_def zonePlatform_def sampleDates_def meal1_def)
  have "isToday (newYorkPlatform 1793593800000) (storedDiet meal1) = Inr True"
    unfolding isToday_stored p
    by (simp add: onLocalDay_def newYorkPlatform_def zonePlatform_def LocalTime_def Day_def
        msPerDay_def)
  then have "fst (getTodaysDietEntries (newYorkPlatform 1793593800000) usedDevice)
       = Inr [storedDiet meal1]"
    using usedDevice_reads(1)
    by (cases "getDietEntries usedDevice")
       (simp add: getTodaysDietEntries_def todaysEntries_def)
  then show ?thesis
    using usedDevice_reads(1) p
    by (simp add: newYorkPlatform_def zonePlatform_def msPerDay_def)
qed
























section \<open>Properties of the save actions\<close>

text \<open>
  Rounding to a double: \<open>ilog2\<close> finds the binade, an integer of at most 53 bits is a
  double, and \<open>2^53 + 1\<close>, half way between two doubles, rounds to the even one.
\<close>

lemma ilog2_bounds:
  "1 \<le> n \<Longrightarrow> 0 \<le> ilog2 n \<and> 2 ^ nat (ilog2 n) \<le> n \<and> n < 2 ^ nat (ilog2 n + 1)"
proof (induction n rule: ilog2.induct)
  case (1 n)
  show ?case
  proof (cases "n < 2")
    case True
    then have "n = 1" using "1.prems" by simp
    then show ?thesis by (simp add: ilog2.simps [of 1])
  next
    case False
    then have h: "1 \<le> n div 2" by simp
    note ih = "1.IH" [OF False h]
    define k where "k = ilog2 (n div 2)"
    have k: "0 \<le> k" "2 ^ nat k \<le> n div 2" "n div 2 < 2 ^ nat (k + 1)"
      using ih by (simp_all add: k_def)
    have e: "ilog2 n = 1 + k"
      using False by (simp add: k_def ilog2.simps [of n])
    have p: "(2::int) ^ nat (1 + k) = 2 * 2 ^ nat k" "(2::int) ^ nat (1 + k + 1) = 2 * 2 ^ nat (k + 1)"
      using k(1) by (simp_all add: nat_add_distrib)
    have "2 * 2 ^ nat k \<le> n" using k(2) by linarith
    moreover have "n < 2 * 2 ^ nat (k + 1)" using k(3) by linarith
    ultimately show ?thesis
      using k(1) unfolding e p by simp
  qed
qed

lemma ilog2_unique:
  assumes "0 \<le> k" "2 ^ nat k \<le> n" "n < 2 ^ nat (k + 1)"
  shows "ilog2 n = k"
proof -
  have n: "1 \<le> n"
    using assms(2) one_le_power [of "2::int" "nat k"] by linarith
  note b = ilog2_bounds [OF n]
  have "(2::int) ^ nat (ilog2 n) < 2 ^ nat (k + 1)" using b assms(3) by linarith
  then have "nat (ilog2 n) < nat (k + 1)" by (simp add: power_strict_increasing_iff)
  moreover have "(2::int) ^ nat k < 2 ^ nat (ilog2 n + 1)" using b assms(2) by linarith
  then have "nat k < nat (ilog2 n + 1)" by (simp add: power_strict_increasing_iff)
  ultimately show ?thesis using assms(1) b by linarith
qed

lemma floorLog2_normal:
  fixes a :: rat
  assumes "0 \<le> e" "2 ^ nat e \<le> a" "a < 2 ^ nat (e + 1)"
  shows "floorLog2 a = e"
proof -
  have one: "1 \<le> a"
    using assms(2) one_le_power [of "2::rat" "nat e"] by linarith
  have "(of_int (2 ^ nat e) :: rat) \<le> a" using assms(2) by simp
  then have lo: "2 ^ nat e \<le> \<lfloor>a\<rfloor>" by (simp only: le_floor_iff)
  have "a < of_int (2 ^ nat (e + 1))" using assms(3) by simp
  then have hi: "\<lfloor>a\<rfloor> < 2 ^ nat (e + 1)" by (simp only: floor_less_iff)
  show ?thesis
    using one ilog2_unique [OF assms(1) lo hi] by (simp add: floorLog2_def)
qed

lemma fl_normal:
  fixes a :: rat
  assumes "0 \<le> e" "2 ^ nat e \<le> a" "a < 2 ^ nat (e + 1)"
  shows "fl a = (let r = of_int (roundHalfEven (a / pow2 (e - 52))) * pow2 (e - 52)
                 in if pow2 1024 \<le> r then PosInfinity else Finite r)"
proof -
  have pos: "0 < a"
    using assms(2) zero_less_power [of "2::rat" "nat e"] by linarith
  have m: "max e (- 1022) = e" using assms(1) by simp
  show ?thesis
    using pos by (simp add: fl_def floorLog2_normal [OF assms] m Let_def)
qed

lemma roundHalfEven_int [simp]: "roundHalfEven (of_int z) = z"
  by (simp add: roundHalfEven_def)

lemma roundHalfEven_tie:
  "roundHalfEven (of_int z + 1 / 2) = (if even z then z else z + 1)"
proof -
  have "\<lfloor>(of_int z :: rat) + 1 / 2\<rfloor> = z"
    by (rule floor_unique) simp_all
  then show ?thesis by (simp add: roundHalfEven_def)
qed

lemma pow2_less: "e \<le> 1023 \<Longrightarrow> pow2 e < pow2 1024"
proof (cases "0 \<le> e")
  case True
  assume "e \<le> 1023"
  then have "nat e < 1024" using True by simp
  then have "(2::rat) ^ nat e < 2 ^ 1024" by (rule power_strict_increasing) simp
  then show ?thesis using True by (simp add: pow2_def)
next
  case False
  have a: "pow2 e = 1 / 2 ^ nat (- e)" using False by (simp add: pow2_def)
  have c: "1 / 2 ^ nat (- e) \<le> (1::rat)" by (simp add: divide_le_eq)
  have d: "(1::rat) < pow2 1024" by (simp add: pow2_def)
  show ?thesis using c d unfolding a by linarith
qed

lemma fl_int_pos:
  assumes "0 < n" "n \<le> 2 ^ 53"
  shows "fl (of_int n) = Finite (of_int n)"
proof -
  define e where "e = ilog2 n"
  have b: "0 \<le> e" "2 ^ nat e \<le> n" "n < 2 ^ nat (e + 1)"
    using ilog2_bounds [of n] assms(1) by (simp_all add: e_def)
  have "(2::int) ^ nat e \<le> 2 ^ 53" using b(2) assms(2) by linarith
  then have "nat e \<le> 53" by (rule power_le_imp_le_exp [rotated]) simp
  then have e53: "e \<le> 53" by simp
  have lo: "(2::rat) ^ nat e \<le> of_int n"
    using b(2) by (metis of_int_le_iff of_int_numeral of_int_power)
  have hi: "(of_int n :: rat) < 2 ^ nat (e + 1)"
    using b(3) by (metis of_int_less_iff of_int_numeral of_int_power)
  have r: "of_int (roundHalfEven (of_int n / pow2 (e - 52))) * pow2 (e - 52) = (of_int n :: rat)"
  proof (cases "e \<le> 52")
    case True
    define s where "s = nat (52 - e)"
    have u: "pow2 (e - 52) = 1 / 2 ^ s"
      using True by (cases "e = 52") (simp_all add: pow2_def s_def)
    have q: "(of_int n :: rat) / pow2 (e - 52) = of_int (n * 2 ^ s)"
      by (simp add: u)
    have "roundHalfEven (of_int n / pow2 (e - 52)) = n * 2 ^ s"
      by (simp only: q roundHalfEven_int)
    then show ?thesis by (simp add: u)
  next
    case False
    then have e: "e = 53" using e53 by simp
    then have "2 ^ 53 \<le> n" using b(2) by simp
    then have n: "n = 2 ^ 53" using assms(2) by simp
    have q: "(of_int n :: rat) / pow2 (e - 52) = of_int (2 ^ 52)"
      by (simp add: e n pow2_def)
    have "roundHalfEven (of_int n / pow2 (e - 52)) = 2 ^ 52"
      by (simp only: q roundHalfEven_int)
    then show ?thesis by (simp add: e n pow2_def)
  qed
  have "(of_int n :: rat) \<le> 2 ^ 53"
    using assms(2) by (metis of_int_le_iff of_int_numeral of_int_power)
  also have "\<dots> = pow2 53" by (simp add: pow2_def)
  also have "\<dots> < pow2 1024" by (rule pow2_less) simp
  finally have "\<not> pow2 1024 \<le> (of_int n :: rat)" by simp
  then show ?thesis
    by (simp add: fl_normal [OF b(1) lo hi] r Let_def)
qed

lemma fl_minus: "fl (- q) = (case fl q of Finite r \<Rightarrow> Finite (- r) | NaN \<Rightarrow> NaN
                            | PosInfinity \<Rightarrow> NegInfinity | NegInfinity \<Rightarrow> PosInfinity)"
  by (simp add: fl_def Let_def)

lemma fl_int:
  assumes "\<bar>n\<bar> \<le> 2 ^ 53"
  shows "fl (of_int n) = Finite (of_int n)"
proof (cases "0 < n")
  case True
  then show ?thesis using assms by (simp add: fl_int_pos)
next
  case False
  show ?thesis
  proof (cases "n = 0")
    case True
    then show ?thesis by (simp add: fl_def)
  next
    case False
    with \<open>\<not> 0 < n\<close> have "0 < - n" "- n \<le> 2 ^ 53" using assms by simp_all
    then have "fl (of_int (- n)) = Finite (of_int (- n))" by (rule fl_int_pos)
    then show ?thesis using fl_minus [of "of_int (- n)"] by simp
  qed
qed

lemma fl_tie_53:
  "fl (2 ^ 53 + 1) = Finite (2 ^ 53)"
proof -
  have "(2::rat) ^ 53 + 1 = of_int (2 ^ 52) * 2 + 1" by simp
  then have h: "((2::rat) ^ 53 + 1) / 2 = of_int (2 ^ 52) + 1 / 2" by simp
  have "fl (2 ^ 53 + 1) = (let r = of_int (roundHalfEven ((2 ^ 53 + 1) / pow2 (53 - 52))) * pow2 (53 - 52)
                 in if pow2 1024 \<le> r then PosInfinity else Finite r)"
    by (rule fl_normal) simp_all
  also have "pow2 (53 - 52) = 2" by (simp add: pow2_def)
  finally show ?thesis
    using pow2_less [of 53]
    by (simp only: h roundHalfEven_tie Let_def) (simp add: pow2_def)
qed


lemma exactFrom_head: "exactFrom a ns \<Longrightarrow> \<bar>a\<bar> \<le> 2 ^ 53"
  by (cases ns) simp_all

lemma foldl_exact:
  "exactFrom a ns \<Longrightarrow>
   foldl js_add (Finite (of_int a)) (map (\<lambda>n. Finite (of_int n)) ns)
     = Finite (of_int (a + sum_list ns))"
proof (induction ns arbitrary: a)
  case Nil
  then show ?case by simp
next
  case (Cons n ns)
  then have e: "exactFrom (a + n) ns" by simp
  have "js_add (Finite (of_int a)) (Finite (of_int n)) = fl (of_int (a + n))"
    by simp
  also have "\<dots> = Finite (of_int (a + n))"
    using exactFrom_head [OF e] by (rule fl_int)
  finally show ?case
    using Cons.IH [OF e] by (simp add: add.assoc)
qed

lemma floatSum_exact:
  "exactFrom 0 ns \<Longrightarrow> floatSum (map (\<lambda>n. Finite (of_int n)) ns) = Finite (of_int (sum_list ns))"
  using foldl_exact [of 0 ns] by (simp add: floatSum_def)

lemma foldl_totals:
  "foldl (\<lambda>acc item.
              \<lparr>sum_calories = js_add (sum_calories acc) (calories item),
               sum_protein = js_add (sum_protein acc) (protein item),
               sum_carbs = js_add (sum_carbs acc) (carbs item),
               sum_fat = js_add (sum_fat acc) (fat item)\<rparr>) acc fs
   = \<lparr>sum_calories = foldl js_add (sum_calories acc) (map calories fs),
      sum_protein = foldl js_add (sum_protein acc) (map protein fs),
      sum_carbs = foldl js_add (sum_carbs acc) (map carbs fs),
      sum_fat = foldl js_add (sum_fat acc) (map fat fs)\<rparr>"
  by (induction fs arbitrary: acc) simp_all

lemma calculateTotals_sums:
  "calculateTotals fs
   = \<lparr>sum_calories = floatSum (map calories fs), sum_protein = floatSum (map protein fs),
      sum_carbs = floatSum (map carbs fs), sum_fat = floatSum (map fat fs)\<rparr>"
  by (simp add: calculateTotals_def foldl_totals floatSum_def)

lemma appendEntry_trace:
  "\<exists>cs. trace (snd (appendEntry (readEntries key m1) key m2 entry st)) = trace st @ cs
     \<and> (\<forall>k b. SetItem k b \<in> set cs \<longrightarrow>
           k = key \<and> (\<exists>js. b = Json (JArr (js @ [SerializeJSONProperty entry]))))"
proof -
  obtain v st1 where r: "readEntries key m1 st = (Inr v, st1)"
    using readEntries_returns [of key m1 st] by (cases "readEntries key m1 st") auto
  have t: "trace st1 = trace st @ [GetItem key]"
    using readEntries_trace [of key m1 st] by (simp add: r)
  show ?thesis
  proof (cases "Array_push v entry")
    case (Inl err)
    then show ?thesis
      by (simp add: appendEntry_def r console_error_def t)
  next
    case (Inr vs')
    then obtain vs where "vs' = vs @ [entry]"
      by (cases v) auto
    then show ?thesis
      by (auto simp: appendEntry_def r Inr AsyncStorage_setItem_def Let_def console_error_def t
          JSON_stringify_def)
  qed
qed

lemma saveMeal_adds:
  "foodItems ui \<noteq> [] \<Longrightarrow>
   trace (snd (saveMeal now ui st)) = trace (snd (addDietEntry (mealEntry now ui) st))
   \<and> items (snd (saveMeal now ui st)) = items (snd (addDietEntry (mealEntry now ui) st))"
  by (cases "addDietEntry (mealEntry now ui) st"; cases "fst (addDietEntry (mealEntry now ui) st)")
     (simp_all add: saveMeal_def calculateTotals_sums mealEntry_def [symmetric] console_error_def)

text \<open>
  C7 (as amended). With no food items \<^verbatim>\<open>saveMeal\<close> shows an error and leaves the device
  as it was: the provider is not called. Otherwise every write it makes is to
  \<^verbatim>\<open>@diet_entries\<close> and ends with the meal of the screen, whose foods are not empty and
  whose four totals are the sums over these foods formed from the left in doubles. Such a
  sum is the exact one when the values are integers and no partial sum exceeds \<open>2^53\<close> in
  absolute value.
\<close>

theorem saved_meal_totals:
  "(foodItems ui = [] \<longrightarrow>
      saveMeal now ui st = (Alert ''Error'' ''Please add at least one food item'', st))
   \<and> (\<exists>cs. trace (snd (saveMeal now ui st)) = trace st @ cs
        \<and> (\<forall>k b. SetItem k b \<in> set cs \<longrightarrow>
              k = DIET_KEY \<and> foodItems ui \<noteq> []
              \<and> (\<exists>js. b = Json (JArr (js @ [SerializeJSONProperty
                                              (DietEntry_obj (mealEntry now ui))])))))
   \<and> foods (mealEntry now ui) = foodItems ui
   \<and> totalCalories (mealEntry now ui) = floatSum (map calories (foodItems ui))
   \<and> totalProtein (mealEntry now ui) = floatSum (map protein (foodItems ui))
   \<and> totalCarbs (mealEntry now ui) = floatSum (map carbs (foodItems ui))
   \<and> totalFat (mealEntry now ui) = floatSum (map fat (foodItems ui))
   \<and> (exactFrom 0 ns \<longrightarrow>
        floatSum (map (\<lambda>n. Finite (of_int n)) ns) = Finite (of_int (sum_list ns)))"
proof -
  have a: "saveMeal now ui st = (Alert ''Error'' ''Please add at least one food item'', st)"
    if "foodItems ui = []"
    using that by (simp add: saveMeal_def)
  have b: "\<exists>cs. trace (snd (saveMeal now ui st)) = trace st @ cs
        \<and> (\<forall>k b. SetItem k b \<in> set cs \<longrightarrow>
              k = DIET_KEY \<and> foodItems ui \<noteq> []
              \<and> (\<exists>js. b = Json (JArr (js @ [SerializeJSONProperty
                                              (DietEntry_obj (mealEntry now ui))]))))"
  proof (cases "foodItems ui = []")
    case True
    then have "trace (snd (saveMeal now ui st)) = trace st @ []"
      by (simp add: a)
    then show ?thesis by (intro exI [of _ "[]"]) simp
  next
    case False
    obtain cs where cs: "trace (snd (addDietEntry (mealEntry now ui) st)) = trace st @ cs"
      "\<forall>k b. SetItem k b \<in> set cs \<longrightarrow>
         k = DIET_KEY
         \<and> (\<exists>js. b = Json (JArr (js @ [SerializeJSONProperty (DietEntry_obj (mealEntry now ui))])))"
      using appendEntry_trace [of DIET_KEY "''Error getting diet entries:''"
          "''Error adding diet entry:''" "DietEntry_obj (mealEntry now ui)" st]
      by (auto simp: addDietEntry_def getDietEntries_def)
    show ?thesis
      using False cs saveMeal_adds [OF False, of now st]
      by (intro exI [of _ cs]) simp
  qed
  have c: "floatSum (map (\<lambda>n. Finite (of_int n)) ns) = Finite (of_int (sum_list ns))"
    if "exactFrom 0 ns"
    using that by (rule floatSum_exact)
  show ?thesis
    using a b c by (simp add: mealEntry_def)
qed

lemma snack_calories: "map calories (foods meal2) = map (\<lambda>n. Finite (of_int n)) [95, 150]"
  by (simp add: meal2_def)

theorem saved_meal_totals_witness:
  "foodItems emptyForm = []
   \<and> saveMeal stamp1 emptyForm usedDevice
       = (Alert ''Error'' ''Please add at least one food item'', usedDevice)
   \<and> exactFrom 0 [95, 150]
   \<and> totalCalories (mealEntry stamp1 snackForm) = Finite 245
   \<and> trace (snd (saveMeal stamp1 snackForm freshDevice))
       = [GetItem DIET_KEY,
          SetItem DIET_KEY (Json (JArr [SerializeJSONProperty
                                         (DietEntry_obj (mealEntry stamp1 snackForm))]))]"
proof -
  have a: "foodItems emptyForm = []" "exactFrom 0 [95, 150]"
    by (simp_all add: emptyForm_def)
  have f: "foodItems snackForm \<noteq> []"
    by (simp add: snackForm_def meal2_def)
  have t: "trace (snd (addDietEntry e freshDevice))
      = [GetItem DIET_KEY, SetItem DIET_KEY (Json (JArr [SerializeJSONProperty (DietEntry_obj e)]))]"
    for e
    by (simp add: run_defs)
  show ?thesis
    using saved_meal_totals [of emptyForm stamp1 usedDevice "[95, 150]"]
      saved_meal_totals [of snackForm stamp1 freshDevice "[95, 150]"] a
      saveMeal_adds [OF f, of stamp1 freshDevice]
    by (simp add: t snackForm_def snack_calories)
qed

text \<open>
  As stated, C7 fails for food items whose sum no double holds: for calories of
  9007199254740992 (\<open>2^53\<close>) and 1 the total that is stored is 9007199254740992.
\<close>

theorem saved_meal_totals_counterexample:
  "map calories (foodItems bigForm) = [Finite 9007199254740992, Finite 1]
   \<and> foods bigMeal = foodItems bigForm
   \<and> totalCalories bigMeal = Finite 9007199254740992
   \<and> saveMeal stamp1 bigForm freshDevice
       = (Alert ''Success'' ''Meal saved successfully'', snd (addDietEntry bigMeal freshDevice))
   \<and> items (snd (saveMeal stamp1 bigForm freshDevice)) DIET_KEY
       = Some (JSON_stringify [DietEntry_obj bigMeal])"
proof -
  have a: "fl 9007199254740992 = Finite 9007199254740992"
    using fl_int [of 9007199254740992] by simp
  have b: "fl 9007199254740993 = Finite 9007199254740992"
    using fl_tie_53 by simp
  have z: "fl 0 = Finite 0"
    by (simp add: fl_def)
  have e: "mealEntry stamp1 bigForm = bigMeal"
    by (simp add: mealEntry_def bigMeal_def bigForm_def floatSum_def a b z)
  have s: "fst (addDietEntry bigMeal freshDevice) = Inr ()"
    "items (snd (addDietEntry bigMeal freshDevice)) DIET_KEY
       = Some (JSON_stringify [DietEntry_obj bigMeal])"
    by (simp_all add: run_defs)
  have f: "foodItems bigForm \<noteq> []"
    by (simp add: bigForm_def)
  have "saveMeal stamp1 bigForm freshDevice
       = (Alert ''Success'' ''Meal saved successfully'', snd (addDietEntry bigMeal freshDevice))"
    using f s(1)
    by (cases "addDietEntry bigMeal freshDevice")
       (simp add: saveMeal_def calculateTotals_sums mealEntry_def [symmetric] e)
  then show ?thesis
    using s(2) by (simp add: bigMeal_def) (simp add: bigForm_def)
qed











end
